theory Spec2Isabelle
  imports Complex_Main "HOL-Library.Multiset"
begin

section \<open>Conventions of the embedding\<close>

text \<open>
  The sources are \<^verbatim>\<open>src/lib/socialMediaAnalysis.ts\<close> (class \<^verbatim>\<open>SocialMediaAnalyzer\<close>)
  and the satellite analyser (class \<^verbatim>\<open>SatelliteImageAnalyzer\<close>).

  \<^item> A JavaScript \<^verbatim>\<open>number\<close> is modelled as an exact \<^typ>\<open>real\<close>: the arithmetic of
    the source is read as exact arithmetic, rounding of IEEE doubles is not modelled.
    Counts (\<^verbatim>\<open>length\<close> of an array, \<^verbatim>\<open>reportCount\<close>) are \<^typ>\<open>nat\<close>.
  \<^item> A string is a \<^typ>\<open>string\<close> of 8-bit characters; \<^verbatim>\<open>toLowerCase\<close>,
    \<^verbatim>\<open>\w\<close> and \<^verbatim>\<open>\s\<close> are modelled on ASCII.
  \<^item> What the program reads from its surroundings is an explicit environment: the
    score of the \<^verbatim>\<open>sentiment\<close> package, the successive results of
    \<^verbatim>\<open>Math.random()\<close> and the successive readings of the clock. The number of
    calls made so far is threaded through every function that makes one.
\<close>

record env =
  sentimentScoreOf :: "string \<Rightarrow> real"
  mathRandom :: "nat \<Rightarrow> real"
  dateNow :: "nat \<Rightarrow> int"

record counters =
  randomCalls :: nat
  clockReads :: nat

definition nextRandom :: "env \<Rightarrow> counters \<Rightarrow> real \<times> counters" where
  "nextRandom e c = (mathRandom e (randomCalls c), c\<lparr>randomCalls := Suc (randomCalls c)\<rparr>)"

definition nextClock :: "env \<Rightarrow> counters \<Rightarrow> int \<times> counters" where
  "nextClock e c = (dateNow e (clockReads c), c\<lparr>clockReads := Suc (clockReads c)\<rparr>)"

section \<open>Strings\<close>

definition toLowerChar :: "char \<Rightarrow> char" where
  "toLowerChar c =
     (case map_of (zip ''ABCDEFGHIJKLMNOPQRSTUVWXYZ'' ''abcdefghijklmnopqrstuvwxyz'') c of
        Some d \<Rightarrow> d | None \<Rightarrow> c)"

definition toUpperChar :: "char \<Rightarrow> char" where
  "toUpperChar c =
     (case map_of (zip ''abcdefghijklmnopqrstuvwxyz'' ''ABCDEFGHIJKLMNOPQRSTUVWXYZ'') c of
        Some d \<Rightarrow> d | None \<Rightarrow> c)"

definition toLowerCase :: "string \<Rightarrow> string" where
  "toLowerCase s = map toLowerChar s"

text \<open>\<^verbatim>\<open>s.charAt(0).toUpperCase() + s.slice(1)\<close>\<close>

definition capitalize :: "string \<Rightarrow> string" where
  "capitalize s = (case s of [] \<Rightarrow> [] | c # cs \<Rightarrow> toUpperChar c # cs)"

fun startsWith :: "string \<Rightarrow> string \<Rightarrow> bool" where
  "startsWith s [] = True"
| "startsWith [] (k # ks) = False"
| "startsWith (c # cs) (k # ks) = (c = k \<and> startsWith cs ks)"

text \<open>\<^verbatim>\<open>text.includes(keyword)\<close>: the keyword occurs as a contiguous substring.\<close>

fun str_includes :: "string \<Rightarrow> string \<Rightarrow> bool" where
  "str_includes [] k = (k = [])"
| "str_includes (c # cs) k = (startsWith (c # cs) k \<or> str_includes cs k)"

text \<open>The character classes \<^verbatim>\<open>\w\<close>, \<^verbatim>\<open>\s\<close> and \<^verbatim>\<open>[a-z]\<close> under the flag \<^verbatim>\<open>i\<close>.\<close>

definition isLetter :: "char \<Rightarrow> bool" where
  "isLetter c \<longleftrightarrow>
     c \<in> set ''abcdefghijklmnopqrstuvwxyzABCDEFGHIJKLMNOPQRSTUVWXYZ''"

definition isWordChar :: "char \<Rightarrow> bool" where
  "isWordChar c \<longleftrightarrow> isLetter c \<or> c \<in> set ''0123456789_''"

definition isSpaceChar :: "char \<Rightarrow> bool" where
  "isSpaceChar c \<longleftrightarrow>
     c \<in> set [CHR '' '', CHR 0x09, CHR 0x0A, CHR 0x0B, CHR 0x0C, CHR 0x0D]"

text \<open>\<^verbatim>\<open>s.split(/\s+/)\<close>: the pieces between maximal runs of white space; a leading
  or trailing run leaves an empty piece.\<close>

function splitSpaces :: "string \<Rightarrow> string \<Rightarrow> string list" where
  "splitSpaces cur [] = [cur]"
| "splitSpaces cur (c # cs) =
     (if isSpaceChar c then cur # splitSpaces [] (dropWhile isSpaceChar cs)
      else splitSpaces (cur @ [c]) cs)"
  by pat_completeness auto
termination
  by (relation "measure (\<lambda>(cur, s). length s)")
     (auto simp: le_imp_less_Suc length_dropWhile_le)

definition tokenize :: "string \<Rightarrow> string list" where
  "tokenize txt =
     filter (\<lambda>word. length word > 0)
       (splitSpaces []
          (map (\<lambda>c. if \<not> isWordChar c \<and> \<not> isSpaceChar c then CHR '' '' else c)
             (toLowerCase txt)))"

text \<open>A pattern \<^verbatim>\<open>/PRE([a-z]+)/i\<close> matched against a text: the leftmost position where
  \<^verbatim>\<open>PRE\<close> stands (letters compared without case) followed by at least one letter;
  the capture is the longest run of letters there.\<close>

fun regexCapture :: "string \<Rightarrow> string \<Rightarrow> string option" where
  "regexCapture pre [] = None"
| "regexCapture pre (c # cs) =
     (if startsWith (toLowerCase (c # cs)) pre
         \<and> takeWhile isLetter (drop (length pre) (c # cs)) \<noteq> []
      then Some (takeWhile isLetter (drop (length pre) (c # cs)))
      else regexCapture pre cs)"

section \<open>Data model\<close>

datatype platform = Twitter | Facebook | Instagram | Reddit

record SocialMediaPost =
  post_id :: string
  post_text :: string
  post_author :: string
  post_location :: "string option"
  post_coordinates :: "(real \<times> real) option"
  post_timestamp :: string
  post_platform :: platform

datatype disaster_type = Flood | Fire | Earthquake | Hurricane | Landslide | Cyclone | Tsunami

datatype urgency_level = Critical | High | Medium | Low

text \<open>A coordinate is an object \<^verbatim>\<open>{lat, lng}\<close>. The gazetteer is a plain object, so a
  lookup under a name that it inherits from \<^verbatim>\<open>Object.prototype\<close> yields that member,
  which is no coordinate.\<close>

datatype coords = LatLng real real | PrototypeMember string

text \<open>The identifier \<^verbatim>\<open>alert-${Date.now()}-${Math.random().toString(36).substr(2, 9)}\<close>
  is kept as the clock reading and the random number it is printed from.\<close>

datatype alert_ident = AlertId int real

record DisasterAlert =
  alert_id :: alert_ident
  disasterType :: disaster_type
  location :: string
  coordinates :: coords
  confidence :: real
  severity :: real
  affectedPopulation :: int
  reportCount :: nat
  sentimentScore :: real
  urgencyLevel :: urgency_level
  alert_keywords :: "string list"
  timestamp :: int
  sources :: "SocialMediaPost list"

text \<open>The object returned by \<^verbatim>\<open>analyzePost\<close>.\<close>

record PostAnalysis =
  isDisasterRelated :: bool
  aDisasterType :: "disaster_type option"
  aLocation :: string
  aCoordinates :: coords
  aConfidence :: real
  aSeverity :: real
  aSentimentScore :: real
  aUrgencyLevel :: urgency_level
  aKeywords :: "string list"

section \<open>The tables of the analyser\<close>

text \<open>\<^verbatim>\<open>Object.entries\<close> lists the keys in the order they are written.\<close>

definition disasterKeywords :: "(disaster_type \<times> string list) list" where
  "disasterKeywords =
    [(Flood, [''flood'', ''flooding'', ''water rising'', ''inundation'', ''waterlogged'',
              ''deluge'', ''submerg'']),
     (Fire, [''fire'', ''blaze'', ''burning'', ''flames'', ''smoke'', ''wildfire'',
             ''forest fire'', ''arson'']),
     (Earthquake, [''earthquake'', ''tremor'', ''seismic'', ''quake'', ''shaking'',
                   ''aftershock'', ''epicenter'']),
     (Hurricane, [''hurricane'', ''cyclone'', ''typhoon'', ''storm'', ''wind'', ''gale'',
                  ''tempest'']),
     (Landslide, [''landslide'', ''mudslide'', ''rockslide'', ''slope failure'',
                  ''debris flow'', ''avalanche'']),
     (Cyclone, [''cyclone'', ''tropical storm'', ''depression'', ''low pressure'',
                ''eye of storm'']),
     (Tsunami, [''tsunami'', ''tidal wave'', ''seismic sea wave'', ''ocean wave''])]"

definition urgencyKeywords :: "string list" where
  "urgencyKeywords =
    [''urgent'', ''emergency'', ''help'', ''sos'', ''critical'', ''immediate'', ''rescue'',
     ''trapped'', ''danger'', ''life threatening'', ''evacuate'', ''stranded'']"

definition indianCities :: "(string \<times> real \<times> real) list" where
  "indianCities =
    [(''mumbai'', 19.0760, 72.8777),
     (''delhi'', 28.7041, 77.1025),
     (''bangalore'', 12.9716, 77.5946),
     (''hyderabad'', 17.3850, 78.4867),
     (''chennai'', 13.0827, 80.2707),
     (''kolkata'', 22.5726, 88.3639),
     (''pune'', 18.5204, 73.8567),
     (''ahmedabad'', 23.0225, 72.5714),
     (''kerala'', 10.8505, 76.2711),
     (''wayanad'', 11.6854, 76.1320),
     (''uttarakhand'', 30.0668, 79.0193),
     (''assam'', 26.2006, 92.9376),
     (''odisha'', 20.9517, 85.0985),
     (''bihar'', 25.0961, 85.3131),
     (''rajasthan'', 27.0238, 74.2179),
     (''kashmir'', 34.0837, 74.7973)]"

text \<open>The members of \<^verbatim>\<open>Object.prototype\<close> whose names are their own lower case; both
  are truthy.\<close>

definition inheritedMembers :: "string list" where
  "inheritedMembers = [''constructor'', ''__proto__'']"

text \<open>The name of a type as the template literal of the key prints it.\<close>

fun typeName :: "disaster_type \<Rightarrow> string" where
  "typeName Flood = ''flood''"
| "typeName Fire = ''fire''"
| "typeName Earthquake = ''earthquake''"
| "typeName Hurricane = ''hurricane''"
| "typeName Landslide = ''landslide''"
| "typeName Cyclone = ''cyclone''"
| "typeName Tsunami = ''tsunami''"

section \<open>The text classifier\<close>

fun firstCity :: "string \<Rightarrow> string list \<Rightarrow> string option" where
  "firstCity txt [] = None"
| "firstCity txt (city # rest) =
     (if str_includes txt city then Some (capitalize city) else firstCity txt rest)"

definition locationPatterns :: "string list" where
  "locationPatterns = [''in '', ''at '', ''from '', ''near '']"

fun firstPattern :: "string \<Rightarrow> string list \<Rightarrow> string option" where
  "firstPattern txt [] = None"
| "firstPattern txt (pat # rest) =
     (case regexCapture pat txt of
        Some m \<Rightarrow> Some (capitalize m)
      | None \<Rightarrow> firstPattern txt rest)"

text \<open>An absent and an empty \<^verbatim>\<open>providedLocation\<close> are both falsy.\<close>

definition extractLocation :: "string \<Rightarrow> string option \<Rightarrow> string" where
  "extractLocation txt providedLocation =
     (case providedLocation of
        Some l \<Rightarrow>
          if l \<noteq> [] then l
          else (case firstCity txt (map fst indianCities) of
                  Some city \<Rightarrow> city
                | None \<Rightarrow> (case firstPattern txt locationPatterns of
                             Some m \<Rightarrow> m | None \<Rightarrow> ''Unknown Location''))
      | None \<Rightarrow>
          (case firstCity txt (map fst indianCities) of
             Some city \<Rightarrow> city
           | None \<Rightarrow> (case firstPattern txt locationPatterns of
                        Some m \<Rightarrow> m | None \<Rightarrow> ''Unknown Location'')))"

definition getCoordinates :: "env \<Rightarrow> counters \<Rightarrow> string \<Rightarrow> coords \<times> counters" where
  "getCoordinates e c loc =
     (let locationLower = toLowerCase loc in
      case map_of indianCities locationLower of
        Some (lat, lng) \<Rightarrow> (LatLng lat lng, c)
      | None \<Rightarrow>
          if locationLower \<in> set inheritedMembers then (PrototypeMember locationLower, c)
          else
            (let (u1, c1) = nextRandom e c;
                 (u2, c2) = nextRandom e c1
             in (LatLng (20.5937 + (u1 - 0.5) * 15) (78.9629 + (u2 - 0.5) * 15), c2)))"

definition calculateConfidence :: "nat \<Rightarrow> nat \<Rightarrow> real \<Rightarrow> nat \<Rightarrow> real" where
  "calculateConfidence keywordMatches urgencyCount sentimentScore' textLength =
     (let conf0 = 0 + min 0.4 (real keywordMatches * 0.1);
          conf1 = conf0 + min 0.3 (real urgencyCount * 0.1);
          conf2 = (if sentimentScore' < 0
                   then conf1 + min 0.2 (\<bar>sentimentScore'\<bar> * 0.02) else conf1);
          conf3 = (if textLength \<ge> 10 \<and> textLength \<le> 100 then conf2 + 0.1 else conf2)
      in min 1 conf3)"

definition calculateInitialSeverity :: "urgency_level \<Rightarrow> real \<Rightarrow> nat \<Rightarrow> real" where
  "calculateInitialSeverity lvl sentimentScore' keywordMatches =
     (let sev0 = (case lvl of Critical \<Rightarrow> 5 | High \<Rightarrow> 4 | Medium \<Rightarrow> 3 | Low \<Rightarrow> 2);
          sev1 = (if sentimentScore' < - 5 then min 5 (sev0 + 1) else sev0);
          sev2 = (if keywordMatches \<ge> 3 then min 5 (sev1 + 1) else sev1)
      in sev2)"

text \<open>The body of the loop over the categories; the state is
  \<^verbatim>\<open>(disasterType, maxMatches, matchedKeywords)\<close>.\<close>

definition detectStep ::
  "string \<Rightarrow> disaster_type option \<times> nat \<times> string list \<Rightarrow> disaster_type \<times> string list
     \<Rightarrow> disaster_type option \<times> nat \<times> string list" where
  "detectStep txt st entry =
     (case st of (dt, maxMatches, matchedKeywords) \<Rightarrow>
      case entry of (ty, kws) \<Rightarrow>
        (let matches = filter (\<lambda>keyword. str_includes txt keyword) kws in
         if length matches > maxMatches
         then (Some ty, length matches, matchedKeywords @ matches)
         else (dt, maxMatches, matchedKeywords)))"

definition detectType :: "string \<Rightarrow> disaster_type option \<times> nat \<times> string list" where
  "detectType txt = foldl (detectStep txt) (None, 0, []) disasterKeywords"

definition analyzePost :: "env \<Rightarrow> counters \<Rightarrow> SocialMediaPost \<Rightarrow> PostAnalysis \<times> counters" where
  "analyzePost e c post =
     (let txt = toLowerCase (post_text post);
          tokens = tokenize txt;
          (dt, maxMatches, matchedKeywords) = detectType txt;
          loc = extractLocation txt (post_location post);
          (coordinates', c') = getCoordinates e c loc;
          sentimentScore' = sentimentScoreOf e txt;
          urgencyCount = length (filter (\<lambda>keyword. str_includes txt keyword) urgencyKeywords);
          urgencyLevel' =
            (if urgencyCount \<ge> 3 then Critical
             else if urgencyCount \<ge> 2 then High
             else if urgencyCount \<ge> 1 then Medium else Low);
          confidence' = calculateConfidence maxMatches urgencyCount sentimentScore' (length tokens);
          severity' = calculateInitialSeverity urgencyLevel' sentimentScore' maxMatches
      in (\<lparr> isDisasterRelated = (dt \<noteq> None \<and> maxMatches > 0),
             aDisasterType = dt,
             aLocation = loc,
             aCoordinates = coordinates',
             aConfidence = confidence',
             aSeverity = severity',
             aSentimentScore = sentimentScore',
             aUrgencyLevel = urgencyLevel',
             aKeywords = matchedKeywords \<rparr>, c'))"

section \<open>The alert aggregator\<close>

definition calculateSeverity :: "DisasterAlert \<Rightarrow> real" where
  "calculateSeverity alert =
     (let sev0 = severity alert;
          sev1 = (if reportCount alert \<ge> 10 then min 5 (sev0 + 1)
                  else if reportCount alert \<ge> 5 then min 5 (sev0 + 0.5) else sev0);
          sev2 = (if sentimentScore alert < - 10 then min 5 (sev1 + 1) else sev1)
      in of_int \<lceil>sev2\<rceil>)"

definition majorCities :: "string list" where
  "majorCities = [''mumbai'', ''delhi'', ''bangalore'', ''hyderabad'', ''chennai'', ''kolkata'']"

definition estimateAffectedPopulation :: "env \<Rightarrow> counters \<Rightarrow> string \<Rightarrow> int \<times> counters" where
  "estimateAffectedPopulation e c loc =
     (let locationLower = toLowerCase loc in
      if list_ex (\<lambda>city. str_includes locationLower city) majorCities
      then (let (u, c') = nextRandom e c in (\<lfloor>u * 50000\<rfloor> + 10000, c'))
      else (let (u, c') = nextRandom e c in (\<lfloor>u * 10000\<rfloor> + 1000, c')))"

text \<open>A \<^verbatim>\<open>Map\<close> keeps its entries in the order the keys were first set:
  \<^verbatim>\<open>set\<close> replaces the value of a present key in place and appends a new key.\<close>

type_synonym alert_map = "(string \<times> DisasterAlert) list"

fun mapGet :: "alert_map \<Rightarrow> string \<Rightarrow> DisasterAlert option" where
  "mapGet [] k = None"
| "mapGet ((k', v) # m) k = (if k' = k then Some v else mapGet m k)"

fun mapSet :: "string \<Rightarrow> DisasterAlert \<Rightarrow> alert_map \<Rightarrow> alert_map" where
  "mapSet k v [] = [(k, v)]"
| "mapSet k v ((k', v') # m) = (if k' = k then (k, v) # m else (k', v') # mapSet k v m)"

definition mapValues :: "alert_map \<Rightarrow> DisasterAlert list" where
  "mapValues m = map snd m"

text \<open>The key \<^verbatim>\<open>`${analysis.disasterType}-${analysis.location}`\<close>.\<close>

definition alertKey :: "PostAnalysis \<Rightarrow> string" where
  "alertKey analysis =
     (case aDisasterType analysis of Some ty \<Rightarrow> typeName ty | None \<Rightarrow> ''null'')
       @ ''-'' @ aLocation analysis"

text \<open>The branch of \<^verbatim>\<open>analyzePosts\<close> for a key that the map has: the alert is
  updated in place, one field after the other.\<close>

definition mergeReport :: "DisasterAlert \<Rightarrow> PostAnalysis \<Rightarrow> SocialMediaPost \<Rightarrow> DisasterAlert" where
  "mergeReport existing analysis post =
     (let a1 = existing\<lparr>reportCount := reportCount existing + 1\<rparr>;
          a2 = a1\<lparr>sources := sources a1 @ [post]\<rparr>;
          a3 = a2\<lparr>confidence := min 1 (confidence a2 + 0.05)\<rparr>;
          a4 = a3\<lparr>sentimentScore := (sentimentScore a3 + aSentimentScore analysis) / 2\<rparr>
      in a4\<lparr>severity := calculateSeverity a4\<rparr>)"

text \<open>The branch for a new key. The fields of the object literal are evaluated in the
  order they are written.\<close>

definition createAlert ::
  "env \<Rightarrow> counters \<Rightarrow> PostAnalysis \<Rightarrow> disaster_type \<Rightarrow> SocialMediaPost
     \<Rightarrow> DisasterAlert \<times> counters" where
  "createAlert e c analysis ty post =
     (let (now1, c1) = nextClock e c;
          (u, c2) = nextRandom e c1;
          (population, c3) = estimateAffectedPopulation e c2 (aLocation analysis);
          (now2, c4) = nextClock e c3
      in (\<lparr> alert_id = AlertId now1 u,
             disasterType = ty,
             location = aLocation analysis,
             coordinates = aCoordinates analysis,
             confidence = aConfidence analysis,
             severity = aSeverity analysis,
             affectedPopulation = population,
             reportCount = 1,
             sentimentScore = aSentimentScore analysis,
             urgencyLevel = aUrgencyLevel analysis,
             alert_keywords = aKeywords analysis,
             timestamp = now2,
             sources = [post] \<rparr>, c4))"

text \<open>The body of the loop over the posts. A disaster-related analysis has a type
  (\<^verbatim>\<open>analysis.disasterType!\<close>), so the branch for no type is never taken.\<close>

definition processPost ::
  "env \<Rightarrow> alert_map \<times> counters \<Rightarrow> SocialMediaPost \<Rightarrow> alert_map \<times> counters" where
  "processPost e st post =
     (case st of (alerts, c) \<Rightarrow>
      case analyzePost e c post of (analysis, c1) \<Rightarrow>
        if isDisasterRelated analysis then
          (let key = alertKey analysis in
           case mapGet alerts key of
             Some existing \<Rightarrow> (mapSet key (mergeReport existing analysis post) alerts, c1)
           | None \<Rightarrow>
               (case aDisasterType analysis of
                  None \<Rightarrow> (alerts, c1)
                | Some ty \<Rightarrow>
                    (case createAlert e c1 analysis ty post of
                       (alert, c2) \<Rightarrow> (mapSet key alert alerts, c2))))
        else (alerts, c1))"

text \<open>\<^verbatim>\<open>Array.prototype.sort\<close> with a comparator is stable: an element goes before the
  elements that followed it unless the comparator puts it after them.\<close>

fun insertBy :: "('a \<Rightarrow> 'a \<Rightarrow> real) \<Rightarrow> 'a \<Rightarrow> 'a list \<Rightarrow> 'a list" where
  "insertBy cmp x [] = [x]"
| "insertBy cmp x (y # ys) = (if cmp x y \<le> 0 then x # y # ys else y # insertBy cmp x ys)"

definition sortBy :: "('a \<Rightarrow> 'a \<Rightarrow> real) \<Rightarrow> 'a list \<Rightarrow> 'a list" where
  "sortBy cmp xs = foldr (insertBy cmp) xs []"

text \<open>The filter of the last statement of \<^verbatim>\<open>analyzePosts\<close>, and the loop before it.\<close>

definition published :: "DisasterAlert \<Rightarrow> bool" where
  "published alert \<longleftrightarrow> reportCount alert \<ge> 2 \<or> urgencyLevel alert = Critical"

definition aggregate :: "env \<Rightarrow> counters \<Rightarrow> SocialMediaPost list \<Rightarrow> alert_map \<times> counters" where
  "aggregate e c posts = foldl (processPost e) ([], c) posts"

definition analyzePosts ::
  "env \<Rightarrow> counters \<Rightarrow> SocialMediaPost list \<Rightarrow> DisasterAlert list \<times> counters" where
  "analyzePosts e c posts =
     (case aggregate e c posts of (alerts, c') \<Rightarrow>
        (sortBy (\<lambda>a b. confidence b - confidence a)
           (filter published (mapValues alerts)), c'))"

section \<open>The satellite image classifier\<close>

datatype sat_type = SatFlood | SatFire | SatEarthquake | SatHurricane | SatLandslide | SatNone

record Analysis =
  vegetationIndex :: real
  waterDetection :: real
  buildingDamage :: real
  fireIntensity :: real

record SatelliteDetection =
  sat_disasterType :: sat_type
  sat_confidence :: real
  affectedArea :: real
  sat_severity :: real
  sat_coordinates :: "real \<times> real"
  sat_timestamp :: int
  analysis :: Analysis

definition estimateAffectedArea :: "Analysis \<Rightarrow> sat_type \<Rightarrow> real" where
  "estimateAffectedArea an ty =
     (let baseArea = 10 in
      case ty of
        SatFlood \<Rightarrow> baseArea * (1 + waterDetection an * 50)
      | SatFire \<Rightarrow> baseArea * (1 + fireIntensity an * 30)
      | SatEarthquake \<Rightarrow> baseArea * (1 + buildingDamage an * 40)
      | SatHurricane \<Rightarrow> baseArea * (1 + (waterDetection an + buildingDamage an) * 20)
      | SatLandslide \<Rightarrow> baseArea * (1 + buildingDamage an * 25)
      | SatNone \<Rightarrow> 0)"

definition sat_calculateSeverity :: "real \<Rightarrow> Analysis \<Rightarrow> sat_type \<Rightarrow> real" where
  "sat_calculateSeverity conf an ty =
     (if ty = SatNone then 0
      else
        (let severityScore =
           (case ty of
              SatFlood \<Rightarrow> conf + waterDetection an * 0.3
            | SatFire \<Rightarrow> conf + fireIntensity an * 0.4
            | SatEarthquake \<Rightarrow> conf + buildingDamage an * 0.5
            | SatHurricane \<Rightarrow> conf + (waterDetection an + buildingDamage an) * 0.2
            | SatLandslide \<Rightarrow> conf + buildingDamage an * 0.3
            | SatNone \<Rightarrow> conf)
         in min 5 (max 1 (of_int \<lceil>severityScore * 5\<rceil>))))"

text \<open>The rule cascade on the normalised channel means; without a match the type stays
  \<^verbatim>\<open>'none'\<close> with confidence 0.6.\<close>

definition classifyColors :: "real \<Rightarrow> real \<Rightarrow> real \<Rightarrow> sat_type \<times> real" where
  "classifyColors r g b =
     (if b > r \<and> b > g \<and> b > 0.4 then (SatFlood, min 0.95 (0.5 + (b - max r g) * 2))
      else if r > g \<and> r > b \<and> r > 0.5 then (SatFire, min 0.95 (0.5 + (r - max g b) * 1.5))
      else if r > 0.6 \<and> g > 0.6 \<and> b > 0.6
        then (SatHurricane, min 0.9 (0.6 + (min r (min g b) - 0.6) * 2))
      else if r > 0.4 \<and> g > 0.3 \<and> b < 0.3 \<and> r > b
        then (SatLandslide, min 0.85 (0.5 + ((r + g) / 2 - b) * 1.2))
      else if \<bar>r - g\<bar> < 0.1 \<and> \<bar>g - b\<bar> < 0.1 \<and> r < 0.5 then (SatEarthquake, 0.7)
      else if g > r \<and> g > b then (SatNone, min 0.9 (0.5 + (g - max r b) * 1.5))
      else (SatNone, 0.6))"

definition colorMetrics :: "real \<Rightarrow> real \<Rightarrow> real \<Rightarrow> Analysis" where
  "colorMetrics r g b =
     \<lparr> vegetationIndex = max 0 (min 1 (g - ((r + b) / 2))),
       waterDetection = max 0 (min 1 (b - ((r + g) / 2) + 0.3)),
       buildingDamage = max 0 (min 1 ((r - g) * 1.5)),
       fireIntensity = max 0 (min 1 (r * 0.7 + (1 - b) * 0.3)) \<rparr>"

text \<open>The part of \<^verbatim>\<open>img.onload\<close> after the channel means are known.\<close>

definition analyzeColors ::
  "env \<Rightarrow> counters \<Rightarrow> real \<Rightarrow> real \<Rightarrow> real \<Rightarrow> SatelliteDetection \<times> counters" where
  "analyzeColors e c r g b =
     (case classifyColors r g b of (ty, conf) \<Rightarrow>
      let an = colorMetrics r g b;
          area = estimateAffectedArea an ty;
          sev = sat_calculateSeverity conf an ty;
          (u1, c1) = nextRandom e c;
          (u2, c2) = nextRandom e c1;
          (now, c3) = nextClock e c2
      in (\<lparr> sat_disasterType = ty,
             sat_confidence = conf,
             affectedArea = area,
             sat_severity = sev,
             sat_coordinates = (20.5937 + (u1 - 0.5) * 10, 78.9629 + (u2 - 0.5) * 10),
             sat_timestamp = now,
             analysis = an \<rparr>, c3))"

text \<open>The loop over the bytes of the \<^verbatim>\<open>ImageData\<close>, four (red, green, blue, alpha) to a
  pixel. The data of a canvas has four bytes for every pixel, so the loop never meets
  a pixel with fewer; the model stops there.\<close>

fun sumChannels :: "nat list \<Rightarrow> real \<times> real \<times> real \<Rightarrow> real \<times> real \<times> real" where
  "sumChannels (r # g # b # a # rest) (sr, sg, sb) =
     sumChannels rest (sr + real r, sg + real g, sb + real b)"
| "sumChannels rest acc = acc"

text \<open>What reading and decoding the file gives: a failure of the reader, of the image,
  of the canvas, or the bytes of the canvas of 100 by 100 pixels (40000 bytes, so the
  number of pixels that the sums are divided by is not 0).\<close>

datatype image_source = ReadFails | LoadFails | NoCanvasContext | ImageData "nat list"

datatype sat_error = FailedToReadFile | FailedToLoadImage | CanvasNotSupported

definition analyzeImage ::
  "env \<Rightarrow> counters \<Rightarrow> image_source \<Rightarrow> (sat_error + SatelliteDetection) \<times> counters" where
  "analyzeImage e c src =
     (case src of
        ReadFails \<Rightarrow> (Inl FailedToReadFile, c)
      | LoadFails \<Rightarrow> (Inl FailedToLoadImage, c)
      | NoCanvasContext \<Rightarrow> (Inl CanvasNotSupported, c)
      | ImageData bytes \<Rightarrow>
          (let pixels = real (length bytes) / 4 in
           case sumChannels bytes (0, 0, 0) of (sr, sg, sb) \<Rightarrow>
           case analyzeColors e c (sr / pixels / 255) (sg / pixels / 255) (sb / pixels / 255)
           of (d, c') \<Rightarrow> (Inr d, c')))"

section \<open>Definitions used by the statements\<close>

text \<open>The clamp of the specification: \<^verbatim>\<open>clamp01(x)\<close> is \<open>x\<close> cut to the interval from 0 to 1.\<close>

definition clamp01 :: "real \<Rightarrow> real" where
  "clamp01 x = max 0 (min 1 x)"

text \<open>The confidence as the specification words it: the clamp of 0.1 for each of at most
  four keyword matches, 0.1 for each of at most three urgency hits, the share of a
  negative sentiment and 0.1 for a text of 10 to 100 tokens.\<close>

definition confidenceSpec :: "nat \<Rightarrow> nat \<Rightarrow> real \<Rightarrow> nat \<Rightarrow> real" where
  "confidenceSpec keywordMatches urgencyHits sentiment tokenCount =
     clamp01 (0.1 * real (min 4 keywordMatches) + 0.1 * real (min 3 urgencyHits)
              + (if sentiment < 0 then min 0.2 (\<bar>sentiment\<bar> * 0.02) else 0)
              + (if 10 \<le> tokenCount \<and> tokenCount \<le> 100 then 0.1 else 0))"

text \<open>The state of the surroundings before any call.\<close>

definition c0 :: counters where
  "c0 = \<lparr> randomCalls = 0, clockReads = 0 \<rparr>"

text \<open>The signal of a post: its analysis. Only the coordinates of an analysis depend on
  the calls made before it (lemma \<open>analyzePost_signal\<close>), so the signal is taken at
  \<open>c0\<close>.\<close>

definition signal :: "env \<Rightarrow> SocialMediaPost \<Rightarrow> PostAnalysis" where
  "signal e post = fst (analyzePost e c0 post)"

text \<open>A post qualifies for a key when it is disaster-related and its analysis has that
  key; the reports of a key are the posts of the batch that qualify for it, in order.\<close>

definition qualifies :: "env \<Rightarrow> string \<Rightarrow> SocialMediaPost \<Rightarrow> bool" where
  "qualifies e k post \<longleftrightarrow> isDisasterRelated (signal e post) \<and> alertKey (signal e post) = k"

definition reports :: "env \<Rightarrow> string \<Rightarrow> SocialMediaPost list \<Rightarrow> SocialMediaPost list" where
  "reports e k posts = filter (qualifies e k) posts"

text \<open>The same for a key given as a type and a location name.\<close>

definition reportsFor ::
  "env \<Rightarrow> disaster_type \<Rightarrow> string \<Rightarrow> SocialMediaPost list \<Rightarrow> SocialMediaPost list" where
  "reportsFor e ty loc posts =
     filter (\<lambda>p. isDisasterRelated (signal e p) \<and> aDisasterType (signal e p) = Some ty
                \<and> aLocation (signal e p) = loc) posts"

text \<open>A run of merges into an alert, each with the analysis and the post it merges.\<close>

definition mergeAll :: "DisasterAlert \<Rightarrow> (PostAnalysis \<times> SocialMediaPost) list \<Rightarrow> DisasterAlert" where
  "mergeAll a rs = foldl (\<lambda>a r. mergeReport a (fst r) (snd r)) a rs"

text \<open>The least severity an alert of the analyser can have at a report count: 2 up to
  the fourth report, one more with each report from the fifth, at most 5.\<close>

definition severityFloor :: "nat \<Rightarrow> int" where
  "severityFloor n = min 5 (2 + int (n - 4))"

text \<open>The category selection as the specification words it: the number of keywords of a
  category that occur in the text, the greatest of these counts, and the first category
  of the table that has it, unless it is 0.\<close>

definition matchCount :: "string \<Rightarrow> string list \<Rightarrow> nat" where
  "matchCount txt kws = length (filter (\<lambda>keyword. str_includes txt keyword) kws)"

definition categoryCounts :: "string \<Rightarrow> (disaster_type \<times> nat) list" where
  "categoryCounts txt = map (\<lambda>entry. (fst entry, matchCount txt (snd entry))) disasterKeywords"

fun greatestCount :: "(disaster_type \<times> nat) list \<Rightarrow> nat" where
  "greatestCount [] = 0"
| "greatestCount ((ty, n) # cs) = max n (greatestCount cs)"

definition winner :: "(disaster_type \<times> nat) list \<Rightarrow> disaster_type option" where
  "winner cs =
     (if greatestCount cs = 0 then None
      else map_option fst (find (\<lambda>entry. snd entry = greatestCount cs) cs))"

text \<open>Concrete inputs: surroundings where the sentiment score is 0, the \<open>n\<close>-th random
  number is \<open>1 / (n + 2)\<close> and the \<open>n\<close>-th clock reading is \<open>n\<close>; three posts; an alert and
  an analysis with a sentiment of \<open>- 30\<close>.\<close>

definition env0 :: env where
  "env0 = \<lparr> sentimentScoreOf = (\<lambda>txt. 0), mathRandom = (\<lambda>n. 1 / (real n + 2)),
            dateNow = (\<lambda>n. int n) \<rparr>"

definition textPost :: "string \<Rightarrow> SocialMediaPost" where
  "textPost txt = \<lparr> post_id = ''post-1'', post_text = txt, post_author = ''User1'',
      post_location = None, post_coordinates = None, post_timestamp = ''2025-03-21'',
      post_platform = Twitter \<rparr>"

definition floodPost1 :: SocialMediaPost where
  "floodPost1 = textPost ''Heavy flooding in Mumbai! Need help''"

definition floodPost2 :: SocialMediaPost where
  "floodPost2 = textPost ''Flood water rising in mumbai''"

definition quietPost :: SocialMediaPost where
  "quietPost = textPost ''hello world''"

definition alertA :: DisasterAlert where
  "alertA = \<lparr> alert_id = AlertId 0 0, disasterType = Flood, location = ''Mumbai'',
      coordinates = LatLng 19.0760 72.8777, confidence = 0.5,
      severity = calculateInitialSeverity Low (- 30) 1, affectedPopulation = 10000,
      reportCount = 1, sentimentScore = - 30, urgencyLevel = Low,
      alert_keywords = [''flood''], timestamp = 0, sources = [floodPost2] \<rparr>"

definition signalA :: PostAnalysis where
  "signalA = \<lparr> isDisasterRelated = True, aDisasterType = Some Flood, aLocation = ''Mumbai'',
      aCoordinates = LatLng 19.0760 72.8777, aConfidence = 0.2, aSeverity = 2,
      aSentimentScore = - 30, aUrgencyLevel = Low, aKeywords = [''flood''] \<rparr>"

text \<open>The same surroundings with a sentiment score of \<open>- 30\<close> for every text, and two
  short posts with a location of their own.\<close>

definition env1 :: env where
  "env1 = \<lparr> sentimentScoreOf = (\<lambda>txt. - 30), mathRandom = (\<lambda>n. 1 / (real n + 2)),
            dateNow = (\<lambda>n. int n) \<rparr>"

definition shortPost :: SocialMediaPost where
  "shortPost = (textPost ''flood'')\<lparr>post_location := Some ''Pune''\<rparr>"

definition firePost :: SocialMediaPost where
  "firePost = (textPost ''fire'')\<lparr>post_location := Some ''Delhi''\<rparr>"

section \<open>Properties of the text classifier\<close>

lemma calculateConfidence_formula:
  "calculateConfidence k u s n = confidenceSpec k u s n"
  unfolding calculateConfidence_def confidenceSpec_def clamp01_def Let_def
  by (auto simp: min_def max_def)

lemma calculateConfidence_range:
  "0 \<le> calculateConfidence k u s n \<and> calculateConfidence k u s n \<le> 1"
  unfolding calculateConfidence_formula confidenceSpec_def clamp01_def by simp

lemma analyzePost_confidence:
  "aConfidence (fst (analyzePost e c post)) =
     calculateConfidence (fst (snd (detectType (toLowerCase (post_text post)))))
       (length (filter (\<lambda>keyword. str_includes (toLowerCase (post_text post)) keyword)
          urgencyKeywords))
       (sentimentScoreOf e (toLowerCase (post_text post)))
       (length (tokenize (toLowerCase (post_text post))))"
  unfolding analyzePost_def Let_def by (simp split: prod.splits)

text \<open>
  Claim C5. For all numbers of keyword matches \<open>k\<close> and urgency hits \<open>u\<close>, every
  sentiment \<open>s\<close> and every token count \<open>n\<close>, \<^verbatim>\<open>calculateConfidence\<close> returns the clamp
  to the interval from 0 to 1 of \<open>0.1 * min 4 k + 0.1 * min 3 u\<close>, plus
  \<open>min 0.2 (\<bar>s\<bar> * 0.02)\<close> when \<open>s\<close> is negative, plus 0.1 when \<open>10 \<le> n \<le> 100\<close>. The
  confidence of the analysis of every post is this value at the post's greatest match
  count, its urgency hits, its sentiment and its token count, and it lies between 0
  and 1.
\<close>

theorem confidence_is_clamped_sum:
  "calculateConfidence k u s n =
     clamp01 (0.1 * real (min 4 k) + 0.1 * real (min 3 u)
              + (if s < 0 then min 0.2 (\<bar>s\<bar> * 0.02) else 0)
              + (if 10 \<le> n \<and> n \<le> 100 then 0.1 else 0))
   \<and> 0 \<le> calculateConfidence k u s n \<and> calculateConfidence k u s n \<le> 1
   \<and> aConfidence (fst (analyzePost e c post)) =
       confidenceSpec (fst (snd (detectType (toLowerCase (post_text post)))))
         (length (filter (\<lambda>keyword. str_includes (toLowerCase (post_text post)) keyword)
            urgencyKeywords))
         (sentimentScoreOf e (toLowerCase (post_text post)))
         (length (tokenize (toLowerCase (post_text post))))
   \<and> 0 \<le> aConfidence (fst (analyzePost e c post))
   \<and> aConfidence (fst (analyzePost e c post)) \<le> 1"
proof -
  have "calculateConfidence k u s n =
     clamp01 (0.1 * real (min 4 k) + 0.1 * real (min 3 u)
              + (if s < 0 then min 0.2 (\<bar>s\<bar> * 0.02) else 0)
              + (if 10 \<le> n \<and> n \<le> 100 then 0.1 else 0))"
    using calculateConfidence_formula [of k u s n] by (simp only: confidenceSpec_def)
  moreover have "aConfidence (fst (analyzePost e c post)) =
       confidenceSpec (fst (snd (detectType (toLowerCase (post_text post)))))
         (length (filter (\<lambda>keyword. str_includes (toLowerCase (post_text post)) keyword)
            urgencyKeywords))
         (sentimentScoreOf e (toLowerCase (post_text post)))
         (length (tokenize (toLowerCase (post_text post))))"
    by (simp only: analyzePost_confidence calculateConfidence_formula)
  moreover have "0 \<le> aConfidence (fst (analyzePost e c post))
      \<and> aConfidence (fst (analyzePost e c post)) \<le> 1"
    by (simp only: analyzePost_confidence calculateConfidence_range)
  ultimately show ?thesis
    using calculateConfidence_range [of k u s n] by blast
qed

section \<open>Properties of the image classifier\<close>

lemma classifyColors_blue: "classifyColors 0.2 0.2 0.6 = (SatFlood, 0.95)"
  unfolding classifyColors_def by simp

lemma sumChannels_uniform:
  "sumChannels (concat (replicate n [r, g, b, a])) (sr, sg, sb) =
     (sr + real n * real r, sg + real n * real g, sb + real n * real b)"
  by (induction n arbitrary: sr sg sb) (simp_all add: algebra_simps)

lemma analyzeImage_uniform_blue:
  "fst (analyzeImage e c (ImageData (concat (replicate 10000 [51, 51, 153, 255]))))
     = Inr (fst (analyzeColors e c 0.2 0.2 0.6))"
  unfolding analyzeImage_def Let_def
  by (simp add: sumChannels_uniform length_concat sum_list_replicate split: prod.splits)

text \<open>
  Claim C8. On the channel means \<open>r = 0.2\<close>, \<open>g = 0.2\<close>, \<open>b = 0.6\<close> the classifier returns the
  type flood, the confidence \<open>min 0.95 (0.5 + (0.6 - 0.2) * 2) = 0.95\<close>, the water index
  \<open>clamp01 (0.6 - 0.2 + 0.3) = 0.7\<close> and the affected area \<open>10 * (1 + 0.7 * 50) = 360\<close>. An
  image of 100 by 100 pixels of the colour (51, 51, 153) has these means and is
  analysed to this detection.
\<close>

theorem blue_image_is_flood:
  "sat_disasterType (fst (analyzeColors e c 0.2 0.2 0.6)) = SatFlood
   \<and> sat_confidence (fst (analyzeColors e c 0.2 0.2 0.6)) = min 0.95 (0.5 + (0.6 - 0.2) * 2)
   \<and> sat_confidence (fst (analyzeColors e c 0.2 0.2 0.6)) = 0.95
   \<and> waterDetection (analysis (fst (analyzeColors e c 0.2 0.2 0.6))) = clamp01 (0.6 - 0.2 + 0.3)
   \<and> waterDetection (analysis (fst (analyzeColors e c 0.2 0.2 0.6))) = 0.7
   \<and> affectedArea (fst (analyzeColors e c 0.2 0.2 0.6)) = 10 * (1 + 0.7 * 50)
   \<and> affectedArea (fst (analyzeColors e c 0.2 0.2 0.6)) = 360
   \<and> fst (analyzeImage e c (ImageData (concat (replicate 10000 [51, 51, 153, 255]))))
       = Inr (fst (analyzeColors e c 0.2 0.2 0.6))"
  unfolding analyzeImage_uniform_blue
  unfolding analyzeColors_def Let_def classifyColors_blue
  by (simp add: colorMetrics_def estimateAffectedArea_def clamp01_def split: prod.splits)

section \<open>The analysis of a post and the calls made before it\<close>

lemma analyzePost_signal:
  "fst (analyzePost e c p) = (signal e p)\<lparr>aCoordinates := aCoordinates (fst (analyzePost e c p))\<rparr>"
  unfolding analyzePost_def signal_def Let_def by (simp split: prod.splits)

lemma analyzePost_fields:
  "isDisasterRelated (fst (analyzePost e c p)) = isDisasterRelated (signal e p)"
  "aDisasterType (fst (analyzePost e c p)) = aDisasterType (signal e p)"
  "aLocation (fst (analyzePost e c p)) = aLocation (signal e p)"
  "aConfidence (fst (analyzePost e c p)) = aConfidence (signal e p)"
  "aSeverity (fst (analyzePost e c p)) = aSeverity (signal e p)"
  "aSentimentScore (fst (analyzePost e c p)) = aSentimentScore (signal e p)"
  "aUrgencyLevel (fst (analyzePost e c p)) = aUrgencyLevel (signal e p)"
  "aKeywords (fst (analyzePost e c p)) = aKeywords (signal e p)"
  "alertKey (fst (analyzePost e c p)) = alertKey (signal e p)"
  unfolding analyzePost_def signal_def Let_def alertKey_def by (simp_all split: prod.splits)

lemma related_has_type:
  "isDisasterRelated (signal e p) \<Longrightarrow> \<exists>ty. aDisasterType (signal e p) = Some ty"
  unfolding analyzePost_def signal_def Let_def by (auto split: prod.splits)

lemma calculateInitialSeverity_range:
  "calculateInitialSeverity lvl s k \<in> {2, 3, 4, 5}"
  unfolding calculateInitialSeverity_def Let_def by (cases lvl) auto

lemma signal_severity: "aSeverity (signal e p) \<in> {2, 3, 4, 5}"
proof -
  have "\<exists>lvl s k. aSeverity (signal e p) = calculateInitialSeverity lvl s k"
    unfolding signal_def analyzePost_def Let_def by (simp split: prod.splits) blast
  then show ?thesis using calculateInitialSeverity_range by metis
qed

lemma signal_confidence: "0 \<le> aConfidence (signal e p) \<and> aConfidence (signal e p) \<le> 1"
  unfolding signal_def by (simp only: analyzePost_confidence calculateConfidence_range)

section \<open>The category selection\<close>

lemma detect_fold:
  "foldl (detectStep txt) (dt, mx, kw) tbl = (dt', mx', kw') \<Longrightarrow>
   mx' = max mx (greatestCount (map (\<lambda>entry. (fst entry, matchCount txt (snd entry))) tbl))
   \<and> dt' = (if greatestCount (map (\<lambda>entry. (fst entry, matchCount txt (snd entry))) tbl) > mx
            then map_option fst
              (find (\<lambda>entry. snd entry =
                   greatestCount (map (\<lambda>entry. (fst entry, matchCount txt (snd entry))) tbl))
                 (map (\<lambda>entry. (fst entry, matchCount txt (snd entry))) tbl))
            else dt)"
proof (induction tbl arbitrary: dt mx kw)
  case Nil
  then show ?case by simp
next
  case (Cons entry tbl)
  obtain ty kws where entry: "entry = (ty, kws)" by (cases entry)
  define n where "n = matchCount txt kws"
  define G where "G = greatestCount (map (\<lambda>entry. (fst entry, matchCount txt (snd entry))) tbl)"
  show ?case
  proof (cases "n > mx")
    case True
    have step: "detectStep txt (dt, mx, kw) entry
        = (Some ty, n, kw @ filter (\<lambda>keyword. str_includes txt keyword) kws)"
      using True unfolding detectStep_def entry n_def matchCount_def Let_def by simp
    have "foldl (detectStep txt) (Some ty, n, kw @ filter (\<lambda>keyword. str_includes txt keyword) kws) tbl
        = (dt', mx', kw')"
      using Cons.prems step by simp
    from Cons.IH [OF this]
    have "mx' = max n G" and "dt' = (if G > n then map_option fst
              (find (\<lambda>entry. snd entry = G)
                 (map (\<lambda>entry. (fst entry, matchCount txt (snd entry))) tbl)) else Some ty)"
      unfolding G_def by simp_all
    then show ?thesis
      using True unfolding entry by (auto simp: n_def [symmetric] G_def [symmetric] max_def)
  next
    case False
    have step: "detectStep txt (dt, mx, kw) entry = (dt, mx, kw)"
      using False unfolding detectStep_def entry n_def matchCount_def Let_def by simp
    have "foldl (detectStep txt) (dt, mx, kw) tbl = (dt', mx', kw')"
      using Cons.prems step by simp
    from Cons.IH [OF this]
    have "mx' = max mx G" and "dt' = (if G > mx then map_option fst
              (find (\<lambda>entry. snd entry = G)
                 (map (\<lambda>entry. (fst entry, matchCount txt (snd entry))) tbl)) else dt)"
      unfolding G_def by simp_all
    then show ?thesis
      using False unfolding entry by (auto simp: n_def [symmetric] G_def [symmetric] max_def)
  qed
qed

lemma detectType_winner:
  "fst (detectType txt) = winner (categoryCounts txt)
   \<and> fst (snd (detectType txt)) = greatestCount (categoryCounts txt)"
proof -
  obtain dt' mx' kw' where eq: "detectType txt = (dt', mx', kw')" by (cases "detectType txt")
  then have "foldl (detectStep txt) (None, 0, []) disasterKeywords = (dt', mx', kw')"
    unfolding detectType_def by simp
  from detect_fold [OF this] show ?thesis
    unfolding eq winner_def categoryCounts_def by auto
qed

lemma greatestCount_zero:
  "greatestCount cs = 0 \<longleftrightarrow> list_all (\<lambda>entry. snd entry = 0) cs"
  by (induction cs rule: greatestCount.induct) auto

lemma winner_Some_pos: "winner cs \<noteq> None \<longleftrightarrow> greatestCount cs > 0"
proof -
  have "greatestCount cs > 0 \<Longrightarrow> find (\<lambda>entry. snd entry = greatestCount cs) cs \<noteq> None"
    by (induction cs rule: greatestCount.induct) (auto simp: max_def)
  then show ?thesis unfolding winner_def by auto
qed

lemma signal_type:
  "aDisasterType (signal e p) = winner (categoryCounts (toLowerCase (post_text p)))"
  "isDisasterRelated (signal e p) \<longleftrightarrow> greatestCount (categoryCounts (toLowerCase (post_text p))) > 0"
proof -
  obtain dt mx kw where eq: "detectType (toLowerCase (post_text p)) = (dt, mx, kw)"
    by (cases "detectType (toLowerCase (post_text p))")
  have w: "dt = winner (categoryCounts (toLowerCase (post_text p)))"
      "mx = greatestCount (categoryCounts (toLowerCase (post_text p)))"
    using detectType_winner [of "toLowerCase (post_text p)"] eq by simp_all
  have a: "aDisasterType (signal e p) = dt" "isDisasterRelated (signal e p) \<longleftrightarrow> dt \<noteq> None \<and> mx > 0"
    unfolding signal_def analyzePost_def Let_def eq by (simp_all split: prod.splits)
  show "aDisasterType (signal e p) = winner (categoryCounts (toLowerCase (post_text p)))"
    using a w by simp
  show "isDisasterRelated (signal e p) \<longleftrightarrow> greatestCount (categoryCounts (toLowerCase (post_text p))) > 0"
    using a w winner_Some_pos by auto
qed

lemma table_order:
  "map fst disasterKeywords = [Flood, Fire, Earthquake, Hurricane, Landslide, Cyclone, Tsunami]"
  unfolding disasterKeywords_def by simp

section \<open>The map of alerts\<close>

lemma typeName_key_inj:
  "typeName t1 @ ''-'' @ l1 = typeName t2 @ ''-'' @ l2 \<longleftrightarrow> t1 = t2 \<and> l1 = l2"
  by (cases t1; cases t2; simp)

lemma typeName_key_inj2:
  "typeName t1 @ CHR ''-'' # l1 = typeName t2 @ CHR ''-'' # l2 \<longleftrightarrow> t1 = t2 \<and> l1 = l2"
  by (cases t1; cases t2; simp)

lemma mapGet_mapSet:
  "mapGet (mapSet k v m) k' = (if k' = k then Some v else mapGet m k')"
  by (induction m) auto

lemma mapGet_Some_mem: "mapGet m k = Some a \<Longrightarrow> (k, a) \<in> set m"
  by (induction m) (auto split: if_splits)

lemma mapGet_None_iff: "mapGet m k = None \<longleftrightarrow> k \<notin> fst ` set m"
  by (induction m) (force split: if_splits)+

lemma set_mapSet: "(k', a) \<in> set (mapSet k v m) \<Longrightarrow> (k', a) = (k, v) \<or> (k', a) \<in> set m"
  by (induction m) (auto split: if_splits)

lemma keys_mapSet: "fst ` set (mapSet k v m) = insert k (fst ` set m)"
  by (induction m) (force split: if_splits)+

lemma distinct_mapSet:
  "distinct (map fst m) \<Longrightarrow> distinct (map fst (mapSet k v m))"
proof (induction m)
  case Nil
  then show ?case by simp
next
  case (Cons x m)
  obtain k' v' where x: "x = (k', v')" by (cases x)
  show ?case
  proof (cases "k' = k")
    case True
    with Cons.prems x show ?thesis by simp
  next
    case False
    have "k' \<notin> fst ` set (mapSet k v m)"
      using Cons.prems x False by (simp add: keys_mapSet)
    with Cons x False show ?thesis by simp
  qed
qed

lemma mapGet_distinct_mem:
  "distinct (map fst m) \<Longrightarrow> (k, a) \<in> set m \<Longrightarrow> mapGet m k = Some a"
  by (induction m) (force split: if_splits)+

lemma values_for_key:
  assumes "distinct (map fst m)"
    and "\<And>k a. (k, a) \<in> set m \<Longrightarrow> k = typeName (disasterType a) @ ''-'' @ location a"
  shows "filter (\<lambda>a. disasterType a = ty \<and> location a = loc) (mapValues m) =
     (case mapGet m (typeName ty @ ''-'' @ loc) of None \<Rightarrow> [] | Some a \<Rightarrow> [a])"
  using assms
proof (induction m)
  case Nil
  then show ?case by (simp add: mapValues_def)
next
  case (Cons x m)
  obtain k v where x: "x = (k, v)" by (cases x)
  have kv: "k = typeName (disasterType v) @ ''-'' @ location v" using Cons.prems(2) x by simp
  have IH: "filter (\<lambda>a. disasterType a = ty \<and> location a = loc) (mapValues m) =
     (case mapGet m (typeName ty @ ''-'' @ loc) of None \<Rightarrow> [] | Some a \<Rightarrow> [a])"
    using Cons by simp
  show ?case
  proof (cases "k = typeName ty @ ''-'' @ loc")
    case True
    then have v: "disasterType v = ty \<and> location v = loc" using kv typeName_key_inj by metis
    have "k \<notin> fst ` set m" using Cons.prems(1) x by simp
    then have "mapGet m (typeName ty @ ''-'' @ loc) = None" using True by (simp add: mapGet_None_iff)
    then show ?thesis using IH v True x by (simp add: mapValues_def)
  next
    case False
    then have "\<not> (disasterType v = ty \<and> location v = loc)" using kv by auto
    then show ?thesis using IH False x by (auto simp: mapValues_def)
  qed
qed

section \<open>One step of the aggregator\<close>

lemma createAlert_fields:
  "disasterType (fst (createAlert e c A ty p)) = ty"
  "location (fst (createAlert e c A ty p)) = aLocation A"
  "coordinates (fst (createAlert e c A ty p)) = aCoordinates A"
  "confidence (fst (createAlert e c A ty p)) = aConfidence A"
  "severity (fst (createAlert e c A ty p)) = aSeverity A"
  "reportCount (fst (createAlert e c A ty p)) = 1"
  "sentimentScore (fst (createAlert e c A ty p)) = aSentimentScore A"
  "urgencyLevel (fst (createAlert e c A ty p)) = aUrgencyLevel A"
  "alert_keywords (fst (createAlert e c A ty p)) = aKeywords A"
  "sources (fst (createAlert e c A ty p)) = [p]"
  unfolding createAlert_def Let_def by (simp_all split: prod.splits)

lemma mergeReport_fields:
  "alert_id (mergeReport a A p) = alert_id a"
  "disasterType (mergeReport a A p) = disasterType a"
  "location (mergeReport a A p) = location a"
  "coordinates (mergeReport a A p) = coordinates a"
  "urgencyLevel (mergeReport a A p) = urgencyLevel a"
  "alert_keywords (mergeReport a A p) = alert_keywords a"
  "affectedPopulation (mergeReport a A p) = affectedPopulation a"
  "timestamp (mergeReport a A p) = timestamp a"
  "reportCount (mergeReport a A p) = reportCount a + 1"
  "sources (mergeReport a A p) = sources a @ [p]"
  "confidence (mergeReport a A p) = min 1 (confidence a + 0.05)"
  "sentimentScore (mergeReport a A p) = (sentimentScore a + aSentimentScore A) / 2"
  unfolding mergeReport_def Let_def by simp_all

lemma mergeReport_only:
  "mergeReport a A p =
     a\<lparr>reportCount := reportCount a + 1, sources := sources a @ [p],
       confidence := min 1 (confidence a + 0.05),
       sentimentScore := (sentimentScore a + aSentimentScore A) / 2,
       severity := severity (mergeReport a A p)\<rparr>"
  unfolding mergeReport_def Let_def by simp

lemma mergeReport_severity:
  "severity (mergeReport a A p) =
     calculateSeverity (a\<lparr>reportCount := reportCount a + 1, sources := sources a @ [p],
        confidence := min 1 (confidence a + 0.05),
        sentimentScore := (sentimentScore a + aSentimentScore A) / 2\<rparr>)"
  unfolding mergeReport_def Let_def by simp

lemma qualifies_related:
  "isDisasterRelated (signal e p) \<Longrightarrow> qualifies e k p \<longleftrightarrow> k = alertKey (signal e p)"
  unfolding qualifies_def by auto

lemma processPost_unrelated:
  assumes "\<not> isDisasterRelated (signal e p)"
  shows "fst (processPost e (m, c) p) = m"
proof -
  obtain A c1 where eq: "analyzePost e c p = (A, c1)" by (cases "analyzePost e c p")
  have "\<not> isDisasterRelated A"
    using assms analyzePost_fields(1) [of e c p] eq by simp
  then show ?thesis unfolding processPost_def by (simp add: eq)
qed

lemma processPost_merge:
  assumes "isDisasterRelated (signal e p)" and "mapGet m (alertKey (signal e p)) = Some ex"
  shows "fst (processPost e (m, c) p) =
     mapSet (alertKey (signal e p)) (mergeReport ex (fst (analyzePost e c p)) p) m"
proof -
  obtain A c1 where eq: "analyzePost e c p = (A, c1)" by (cases "analyzePost e c p")
  have "isDisasterRelated A" and "alertKey A = alertKey (signal e p)"
    using assms analyzePost_fields(1,9) [of e c p] eq by simp_all
  then show ?thesis unfolding processPost_def Let_def using assms(2) by (simp add: eq)
qed

lemma processPost_create:
  assumes "isDisasterRelated (signal e p)" and "mapGet m (alertKey (signal e p)) = None"
    and "aDisasterType (signal e p) = Some ty"
  shows "fst (processPost e (m, c) p) =
     mapSet (alertKey (signal e p))
       (fst (createAlert e (snd (analyzePost e c p)) (fst (analyzePost e c p)) ty p)) m"
proof -
  obtain A c1 where eq: "analyzePost e c p = (A, c1)" by (cases "analyzePost e c p")
  have "isDisasterRelated A" and "alertKey A = alertKey (signal e p)"
    and "aDisasterType A = Some ty"
    using assms analyzePost_fields(1,2,9) [of e c p] eq by simp_all
  then show ?thesis unfolding processPost_def Let_def using assms(2)
    by (simp add: eq split: prod.splits)
qed

lemma processPost_mapGet:
  "mapGet (fst (processPost e (m, c) p)) k =
     (if qualifies e k p then
        (case mapGet m k of
           Some ex \<Rightarrow> Some (mergeReport ex (fst (analyzePost e c p)) p)
         | None \<Rightarrow> Some (fst (createAlert e (snd (analyzePost e c p)) (fst (analyzePost e c p))
                      (the (aDisasterType (signal e p))) p)))
      else mapGet m k)"
proof (cases "isDisasterRelated (signal e p)")
  case False
  then show ?thesis by (simp add: processPost_unrelated qualifies_def)
next
  case True
  then obtain ty where ty: "aDisasterType (signal e p) = Some ty"
    using related_has_type by blast
  show ?thesis
  proof (cases "mapGet m (alertKey (signal e p))")
    case None
    show ?thesis
      using None ty
      by (auto simp: processPost_create [OF True None ty] mapGet_mapSet qualifies_related [OF True])
  next
    case (Some ex)
    show ?thesis
      using Some
      by (auto simp: processPost_merge [OF True Some] mapGet_mapSet qualifies_related [OF True])
  qed
qed

section \<open>Severity and confidence under merges\<close>

lemma calculateSeverity_upper: "severity a \<le> 5 \<Longrightarrow> calculateSeverity a \<le> 5"
  unfolding calculateSeverity_def Let_def
  by (auto simp: ceiling_le_iff min_def)

lemma calculateSeverity_ge:
  assumes "severity a \<le> 5"
  shows "severity a \<le> calculateSeverity a"
proof -
  define s1 where "s1 = (if reportCount a \<ge> 10 then min 5 (severity a + 1)
                  else if reportCount a \<ge> 5 then min 5 (severity a + 0.5) else severity a)"
  define s2 where "s2 = (if sentimentScore a < - 10 then min 5 (s1 + 1) else s1)"
  have c: "calculateSeverity a = of_int \<lceil>s2\<rceil>"
    unfolding calculateSeverity_def Let_def s1_def s2_def by simp
  have "severity a \<le> s1" "s1 \<le> 5" using assms unfolding s1_def by (auto simp: min_def)
  then have "severity a \<le> s2" unfolding s2_def by (auto simp: min_def)
  also have "s2 \<le> of_int \<lceil>s2\<rceil>" by (rule le_of_int_ceiling)
  finally show ?thesis using c by simp
qed

lemma ceiling_step: "of_int n \<le> (x::real) \<Longrightarrow> n < 5 \<Longrightarrow> of_int (n + 1) \<le> (of_int \<lceil>min 5 (x + 0.5)\<rceil> :: real)"
proof -
  assume a: "of_int n \<le> x" and b: "n < 5"
  have "of_int n < min 5 (x + 0.5)" using a b by (simp add: min_def)
  then have "n < \<lceil>min 5 (x + 0.5)\<rceil>" by (simp add: less_ceiling_iff)
  then have "n + 1 \<le> \<lceil>min 5 (x + 0.5)\<rceil>" by simp
  then show ?thesis using of_int_le_iff by blast
qed

lemma calculateSeverity_raise:
  assumes "of_int L \<le> severity a" and "severity a \<le> 5" and "L < 5" and "reportCount a \<ge> 5"
  shows "of_int (L + 1) \<le> calculateSeverity a"
proof -
  define s1 where "s1 = (if reportCount a \<ge> 10 then min 5 (severity a + 1)
                  else if reportCount a \<ge> 5 then min 5 (severity a + 0.5) else severity a)"
  define s2 where "s2 = (if sentimentScore a < - 10 then min 5 (s1 + 1) else s1)"
  have c: "calculateSeverity a = of_int \<lceil>s2\<rceil>"
    unfolding calculateSeverity_def Let_def s1_def s2_def by simp
  have "min 5 (severity a + 0.5) \<le> s1" "s1 \<le> 5"
    using assms(2,4) unfolding s1_def by (auto simp: min_def)
  then have "min 5 (severity a + 0.5) \<le> s2" unfolding s2_def by (auto simp: min_def)
  then have "\<lceil>min 5 (severity a + 0.5)\<rceil> \<le> \<lceil>s2\<rceil>" by (rule ceiling_mono)
  then have "(of_int \<lceil>min 5 (severity a + 0.5)\<rceil> :: real) \<le> of_int \<lceil>s2\<rceil>" by simp
  moreover have "of_int (L + 1) \<le> (of_int \<lceil>min 5 (severity a + 0.5)\<rceil> :: real)"
    using assms(1,3) by (rule ceiling_step)
  ultimately show ?thesis using c by linarith
qed

lemma ceiling_2_5: "2 \<le> (x::real) \<Longrightarrow> x \<le> 5 \<Longrightarrow> (of_int \<lceil>x\<rceil> :: real) \<in> {2, 3, 4, 5}"
proof -
  assume a: "2 \<le> x" "x \<le> 5"
  have "\<lceil>x\<rceil> \<le> 5" using a by (simp add: ceiling_le_iff)
  moreover have "2 \<le> \<lceil>x\<rceil>" using a by (simp add: le_ceiling_iff)
  ultimately have "\<lceil>x\<rceil> = 2 \<or> \<lceil>x\<rceil> = 3 \<or> \<lceil>x\<rceil> = 4 \<or> \<lceil>x\<rceil> = 5" by arith
  then show ?thesis by auto
qed

lemma calculateSeverity_range:
  assumes "severity a \<in> {2, 3, 4, 5}"
  shows "calculateSeverity a \<in> {2, 3, 4, 5}"
proof -
  define s1 where "s1 = (if reportCount a \<ge> 10 then min 5 (severity a + 1)
                  else if reportCount a \<ge> 5 then min 5 (severity a + 0.5) else severity a)"
  define s2 where "s2 = (if sentimentScore a < - 10 then min 5 (s1 + 1) else s1)"
  have c: "calculateSeverity a = of_int \<lceil>s2\<rceil>"
    unfolding calculateSeverity_def Let_def s1_def s2_def by simp
  have a: "2 \<le> severity a" "severity a \<le> 5" using assms by auto
  have "2 \<le> s1" "s1 \<le> 5" using a unfolding s1_def by (auto simp: min_def)
  then have "2 \<le> s2" "s2 \<le> 5" unfolding s2_def by (auto simp: min_def)
  then show ?thesis unfolding c by (rule ceiling_2_5)
qed

lemma severityFloor_Suc:
  "severityFloor (Suc n) = (if n \<ge> 4 then min 5 (severityFloor n + 1) else severityFloor n)"
  unfolding severityFloor_def by auto

lemma mergeReport_severity_bounds:
  assumes "of_int (severityFloor (reportCount a)) \<le> severity a" and "severity a \<le> 5"
  shows "of_int (severityFloor (reportCount (mergeReport a A p))) \<le> severity (mergeReport a A p)
       \<and> severity (mergeReport a A p) \<le> 5"
proof -
  define b where "b = a\<lparr>reportCount := reportCount a + 1, sources := sources a @ [p],
        confidence := min 1 (confidence a + 0.05),
        sentimentScore := (sentimentScore a + aSentimentScore A) / 2\<rparr>"
  have sev: "severity (mergeReport a A p) = calculateSeverity b"
    unfolding b_def by (rule mergeReport_severity)
  have b: "severity b = severity a" "reportCount b = Suc (reportCount a)"
    unfolding b_def by simp_all
  have up: "calculateSeverity b \<le> 5" using assms(2) b by (simp add: calculateSeverity_upper)
  have lo: "of_int (severityFloor (Suc (reportCount a))) \<le> calculateSeverity b"
  proof (cases "reportCount a \<ge> 4 \<and> severityFloor (reportCount a) < 5")
    case True
    then have "of_int (severityFloor (reportCount a) + 1) \<le> calculateSeverity b"
      using calculateSeverity_raise [of "severityFloor (reportCount a)" b] assms b by simp
    then show ?thesis using True by (simp add: severityFloor_Suc)
  next
    case False
    have "severityFloor (Suc (reportCount a)) = severityFloor (reportCount a)"
      using False unfolding severityFloor_def by auto
    moreover have "severity a \<le> calculateSeverity b"
      using calculateSeverity_ge [of b] assms(2) b by simp
    ultimately show ?thesis using assms(1) by simp
  qed
  show ?thesis using up lo sev by (simp add: mergeReport_fields)
qed

lemma mergeAll_snoc: "mergeAll a (rs @ [r]) = mergeReport (mergeAll a rs) (fst r) (snd r)"
  unfolding mergeAll_def by simp

lemma mergeAll_Nil: "mergeAll a [] = a"
  unfolding mergeAll_def by simp

lemma mergeAll_reportCount: "reportCount (mergeAll a rs) = reportCount a + length rs"
  by (induction rs rule: rev_induct) (simp_all add: mergeAll_Nil mergeAll_snoc mergeReport_fields)

lemma mergeAll_confidence:
  "confidence a \<le> 1 \<Longrightarrow> confidence (mergeAll a rs) = min 1 (confidence a + 0.05 * real (length rs))"
  by (induction rs rule: rev_induct)
     (auto simp: mergeAll_Nil mergeAll_snoc mergeReport_fields min_def add_divide_distrib)

lemma mergeAll_severity_bounds:
  assumes "of_int (severityFloor (reportCount a)) \<le> severity a" and "severity a \<le> 5"
  shows "of_int (severityFloor (reportCount (mergeAll a rs))) \<le> severity (mergeAll a rs)
       \<and> severity (mergeAll a rs) \<le> 5"
proof (induction rs rule: rev_induct)
  case Nil
  then show ?case using assms by (simp add: mergeAll_Nil)
next
  case (snoc r rs)
  then show ?case by (simp only: mergeAll_snoc mergeReport_severity_bounds)
qed

lemma mergeAll_tenth_report:
  assumes "reportCount a0 = 1" and "severity a0 = calculateInitialSeverity lvl s k"
    and "length rs = 9"
  shows "reportCount (mergeAll a0 rs) = 10 \<and> severity (mergeAll a0 rs) = 5"
proof -
  have "severity a0 \<in> {2, 3, 4, 5}" using assms(2) calculateInitialSeverity_range by simp
  then have "of_int (severityFloor (reportCount a0)) \<le> severity a0" "severity a0 \<le> 5"
    using assms(1) unfolding severityFloor_def by auto
  then have "of_int (severityFloor (reportCount (mergeAll a0 rs))) \<le> severity (mergeAll a0 rs)
       \<and> severity (mergeAll a0 rs) \<le> 5"
    by (rule mergeAll_severity_bounds)
  moreover have rc: "reportCount (mergeAll a0 rs) = 10"
    using assms(1,3) by (simp add: mergeAll_reportCount)
  moreover have "severityFloor 10 = 5" unfolding severityFloor_def by simp
  ultimately show ?thesis by simp
qed

section \<open>Invariants of the aggregator\<close>

lemma aggregate_snoc:
  "aggregate e c (posts @ [p]) = processPost e (aggregate e c posts) p"
  unfolding aggregate_def by simp

lemma aggregate_Nil: "fst (aggregate e c []) = []"
  unfolding aggregate_def by simp

lemma aggregate_invariant:
  assumes create: "\<And>p c c1 ty. isDisasterRelated (signal e p) \<Longrightarrow>
             aDisasterType (signal e p) = Some ty \<Longrightarrow>
             P (alertKey (signal e p)) (fst (createAlert e c1 (fst (analyzePost e c p)) ty p))"
    and merge: "\<And>k a p c. P k a \<Longrightarrow> qualifies e k p \<Longrightarrow>
             P k (mergeReport a (fst (analyzePost e c p)) p)"
    and mem: "(k, a) \<in> set (fst (aggregate e c posts))"
  shows "P k a"
  using mem
proof (induction posts arbitrary: k a rule: rev_induct)
  case Nil
  then show ?case by (simp add: aggregate_Nil)
next
  case (snoc p posts)
  obtain m c' where agg: "aggregate e c posts = (m, c')" by (cases "aggregate e c posts")
  have IH: "\<And>k a. (k, a) \<in> set m \<Longrightarrow> P k a" using snoc.IH agg by simp
  have mem': "(k, a) \<in> set (fst (processPost e (m, c') p))"
    using snoc.prems by (simp add: aggregate_snoc agg)
  show ?case
  proof (cases "isDisasterRelated (signal e p)")
    case False
    then show ?thesis using mem' IH by (simp add: processPost_unrelated)
  next
    case True
    then obtain ty where ty: "aDisasterType (signal e p) = Some ty"
      using related_has_type by blast
    show ?thesis
    proof (cases "mapGet m (alertKey (signal e p))")
      case None
      have "(k, a) \<in> set (mapSet (alertKey (signal e p))
              (fst (createAlert e (snd (analyzePost e c' p)) (fst (analyzePost e c' p)) ty p)) m)"
        using mem' processPost_create [OF True None ty, of c'] by simp
      then have "(k, a) = (alertKey (signal e p),
              fst (createAlert e (snd (analyzePost e c' p)) (fst (analyzePost e c' p)) ty p))
            \<or> (k, a) \<in> set m"
        by (rule set_mapSet)
      then show ?thesis using create [OF True ty] IH by auto
    next
      case (Some ex)
      have ex: "P (alertKey (signal e p)) ex"
        using IH mapGet_Some_mem [OF Some] by simp
      have "(k, a) \<in> set (mapSet (alertKey (signal e p))
              (mergeReport ex (fst (analyzePost e c' p)) p) m)"
        using mem' processPost_merge [OF True Some, of c'] by simp
      then have "(k, a) = (alertKey (signal e p), mergeReport ex (fst (analyzePost e c' p)) p)
            \<or> (k, a) \<in> set m"
        by (rule set_mapSet)
      moreover have "P (alertKey (signal e p)) (mergeReport ex (fst (analyzePost e c' p)) p)"
        using merge [OF ex] True by (simp add: qualifies_related)
      ultimately show ?thesis using IH by auto
    qed
  qed
qed

lemma aggregate_keys:
  assumes "(k, a) \<in> set (fst (aggregate e c posts))"
  shows "k = typeName (disasterType a) @ ''-'' @ location a"
proof (rule aggregate_invariant [where P = "\<lambda>k a. k = typeName (disasterType a) @ ''-'' @ location a", OF _ _ assms])
  fix p c c1 ty
  assume "isDisasterRelated (signal e p)" and "aDisasterType (signal e p) = Some ty"
  then show "alertKey (signal e p) =
      typeName (disasterType (fst (createAlert e c1 (fst (analyzePost e c p)) ty p))) @ ''-'' @
      location (fst (createAlert e c1 (fst (analyzePost e c p)) ty p))"
    by (simp add: createAlert_fields analyzePost_fields alertKey_def)
next
  fix k and a :: DisasterAlert and p c
  assume "k = typeName (disasterType a) @ ''-'' @ location a"
  then show "k = typeName (disasterType (mergeReport a (fst (analyzePost e c p)) p)) @ ''-'' @
      location (mergeReport a (fst (analyzePost e c p)) p)"
    by (simp add: mergeReport_fields)
qed

lemma aggregate_distinct: "distinct (map fst (fst (aggregate e c posts)))"
proof (induction posts rule: rev_induct)
  case Nil
  then show ?case by (simp add: aggregate_Nil)
next
  case (snoc p posts)
  obtain m c' where agg: "aggregate e c posts = (m, c')" by (cases "aggregate e c posts")
  have IH: "distinct (map fst m)" using snoc.IH agg by simp
  show ?case
  proof (cases "isDisasterRelated (signal e p)")
    case False
    then show ?thesis using IH by (simp add: aggregate_snoc agg processPost_unrelated)
  next
    case True
    then obtain ty where ty: "aDisasterType (signal e p) = Some ty"
      using related_has_type by blast
    show ?thesis
    proof (cases "mapGet m (alertKey (signal e p))")
      case None
      show ?thesis
        using IH by (simp add: aggregate_snoc agg processPost_create [OF True None ty] distinct_mapSet)
    next
      case (Some ex)
      show ?thesis
        using IH by (simp add: aggregate_snoc agg processPost_merge [OF True Some] distinct_mapSet)
    qed
  qed
qed

lemma aggregate_severity:
  assumes "(k, a) \<in> set (fst (aggregate e c posts))"
  shows "severity a \<in> {2, 3, 4, 5}"
proof (rule aggregate_invariant [where P = "\<lambda>k a. severity a \<in> {2, 3, 4, 5}", OF _ _ assms])
  fix p c c1 ty
  show "severity (fst (createAlert e c1 (fst (analyzePost e c p)) ty p)) \<in> {2, 3, 4, 5}"
    by (simp only: createAlert_fields analyzePost_fields signal_severity)
next
  fix k and a :: DisasterAlert and p c
  assume "severity a \<in> {2, 3, 4, 5}"
  then show "severity (mergeReport a (fst (analyzePost e c p)) p) \<in> {2, 3, 4, 5}"
    unfolding mergeReport_severity by (intro calculateSeverity_range) simp
qed

lemma aggregate_confidence:
  assumes "(k, a) \<in> set (fst (aggregate e c posts))"
  shows "0 \<le> confidence a \<and> confidence a \<le> 1"
proof (rule aggregate_invariant [where P = "\<lambda>k a. 0 \<le> confidence a \<and> confidence a \<le> 1", OF _ _ assms])
  fix p c c1 ty
  show "0 \<le> confidence (fst (createAlert e c1 (fst (analyzePost e c p)) ty p))
      \<and> confidence (fst (createAlert e c1 (fst (analyzePost e c p)) ty p)) \<le> 1"
    by (simp only: createAlert_fields analyzePost_fields signal_confidence)
next
  fix k and a :: DisasterAlert and p c
  assume "0 \<le> confidence a \<and> confidence a \<le> 1"
  then show "0 \<le> confidence (mergeReport a (fst (analyzePost e c p)) p)
      \<and> confidence (mergeReport a (fst (analyzePost e c p)) p) \<le> 1"
    by (simp add: mergeReport_fields)
qed

lemma reports_snoc:
  "reports e k (posts @ [p]) = (if qualifies e k p then reports e k posts @ [p] else reports e k posts)"
  unfolding reports_def by simp

lemma aggregate_None:
  "mapGet (fst (aggregate e c posts)) k = None \<longleftrightarrow> reports e k posts = []"
proof (induction posts rule: rev_induct)
  case Nil
  then show ?case by (simp add: aggregate_Nil reports_def)
next
  case (snoc p posts)
  obtain m c' where agg: "aggregate e c posts = (m, c')" by (cases "aggregate e c posts")
  have IH: "mapGet m k = None \<longleftrightarrow> reports e k posts = []" using snoc.IH agg by simp
  show ?case
    using IH by (simp add: aggregate_snoc agg processPost_mapGet reports_snoc split: option.splits)
qed

lemma aggregate_Some:
  "mapGet (fst (aggregate e c posts)) k = Some a \<Longrightarrow>
     sources a = reports e k posts \<and> reportCount a = length (reports e k posts)
     \<and> urgencyLevel a = aUrgencyLevel (signal e (hd (reports e k posts)))"
proof (induction posts arbitrary: a rule: rev_induct)
  case Nil
  then show ?case by (simp add: aggregate_Nil)
next
  case (snoc p posts)
  obtain m c' where agg: "aggregate e c posts = (m, c')" by (cases "aggregate e c posts")
  have IH: "\<And>a. mapGet m k = Some a \<Longrightarrow>
     sources a = reports e k posts \<and> reportCount a = length (reports e k posts)
     \<and> urgencyLevel a = aUrgencyLevel (signal e (hd (reports e k posts)))"
    using snoc.IH agg by simp
  have none: "mapGet m k = None \<longleftrightarrow> reports e k posts = []"
    using aggregate_None [of e c posts k] agg by simp
  have get: "mapGet (fst (processPost e (m, c') p)) k = Some a"
    using snoc.prems by (simp add: aggregate_snoc agg)
  show ?case
  proof (cases "qualifies e k p")
    case False
    then show ?thesis using get IH by (simp add: processPost_mapGet reports_snoc)
  next
    case True
    show ?thesis
    proof (cases "mapGet m k")
      case None
      then have "reports e k posts = []" using none by simp
      moreover have "a = fst (createAlert e (snd (analyzePost e c' p)) (fst (analyzePost e c' p))
                      (the (aDisasterType (signal e p))) p)"
        using get True None by (simp add: processPost_mapGet)
      ultimately show ?thesis
        using True by (simp add: reports_snoc createAlert_fields analyzePost_fields)
    next
      case (Some ex)
      then have ne: "reports e k posts \<noteq> []" using none by simp
      have "a = mergeReport ex (fst (analyzePost e c' p)) p"
        using get True Some by (simp add: processPost_mapGet)
      then show ?thesis
        using True IH [OF Some] ne by (simp add: reports_snoc mergeReport_fields)
    qed
  qed
qed

lemma min_cap_step: "min 1 (min 1 (x::real) + 0.05) = min 1 (x + 0.05)"
  by (simp add: min_def)

lemma aggregate_confidence_closed:
  "mapGet (fst (aggregate e c posts)) k = Some a \<Longrightarrow>
     confidence a = min 1 (aConfidence (signal e (hd (reports e k posts)))
                            + 0.05 * real (length (reports e k posts) - 1))"
proof (induction posts arbitrary: a rule: rev_induct)
  case Nil
  then show ?case by (simp add: aggregate_Nil)
next
  case (snoc p posts)
  obtain m c' where agg: "aggregate e c posts = (m, c')" by (cases "aggregate e c posts")
  have IH: "\<And>a. mapGet m k = Some a \<Longrightarrow>
     confidence a = min 1 (aConfidence (signal e (hd (reports e k posts)))
                            + 0.05 * real (length (reports e k posts) - 1))"
    using snoc.IH agg by simp
  have none: "mapGet m k = None \<longleftrightarrow> reports e k posts = []"
    using aggregate_None [of e c posts k] agg by simp
  have get: "mapGet (fst (processPost e (m, c') p)) k = Some a"
    using snoc.prems by (simp add: aggregate_snoc agg)
  show ?case
  proof (cases "qualifies e k p")
    case False
    then show ?thesis using get IH by (simp add: processPost_mapGet reports_snoc)
  next
    case True
    show ?thesis
    proof (cases "mapGet m k")
      case None
      then have "reports e k posts = []" using none by simp
      moreover have "a = fst (createAlert e (snd (analyzePost e c' p)) (fst (analyzePost e c' p))
                      (the (aDisasterType (signal e p))) p)"
        using get True None by (simp add: processPost_mapGet)
      moreover have "aConfidence (signal e p) \<le> 1" using signal_confidence by simp
      ultimately show ?thesis
        using True by (simp add: reports_snoc createAlert_fields analyzePost_fields)
    next
      case (Some ex)
      then have ne: "reports e k posts \<noteq> []" using none by simp
      then obtain n where n: "length (reports e k posts) = Suc n"
        by (cases "reports e k posts") simp_all
      have "a = mergeReport ex (fst (analyzePost e c' p)) p"
        using get True Some by (simp add: processPost_mapGet)
      then have "confidence a = min 1 (min 1 (aConfidence (signal e (hd (reports e k posts)))
                            + 0.05 * real n) + 0.05)"
        using IH [OF Some] n by (simp add: mergeReport_fields)
      also have "\<dots> = min 1 (aConfidence (signal e (hd (reports e k posts)))
                            + 0.05 * real n + 0.05)"
        by (rule min_cap_step)
      also have "\<dots> = min 1 (aConfidence (signal e (hd (reports e k posts)))
                            + 0.05 * real (Suc n))"
        by (simp add: add_divide_distrib add.commute add.left_commute)
      finally show ?thesis
        using True ne n by (simp add: reports_snoc)
    qed
  qed
qed

lemma aggregate_severity_floor:
  assumes "(k, a) \<in> set (fst (aggregate e c posts))"
  shows "of_int (severityFloor (reportCount a)) \<le> severity a \<and> severity a \<le> 5"
proof (rule aggregate_invariant [where P = "\<lambda>k a. of_int (severityFloor (reportCount a)) \<le> severity a \<and> severity a \<le> 5", OF _ _ assms])
  fix p c c1 ty
  have "aSeverity (signal e p) \<in> {2, 3, 4, 5}" by (rule signal_severity)
  then show "of_int (severityFloor (reportCount (fst (createAlert e c1 (fst (analyzePost e c p)) ty p))))
      \<le> severity (fst (createAlert e c1 (fst (analyzePost e c p)) ty p))
      \<and> severity (fst (createAlert e c1 (fst (analyzePost e c p)) ty p)) \<le> 5"
    by (auto simp: createAlert_fields analyzePost_fields severityFloor_def)
next
  fix k and a :: DisasterAlert and p c
  assume "of_int (severityFloor (reportCount a)) \<le> severity a \<and> severity a \<le> 5"
  then show "of_int (severityFloor (reportCount (mergeReport a (fst (analyzePost e c p)) p)))
      \<le> severity (mergeReport a (fst (analyzePost e c p)) p)
      \<and> severity (mergeReport a (fst (analyzePost e c p)) p) \<le> 5"
    by (simp add: mergeReport_severity_bounds)
qed

lemma reportsFor_reports:
  "reportsFor e ty loc posts = reports e (typeName ty @ ''-'' @ loc) posts"
proof -
  have "\<And>p. (isDisasterRelated (signal e p) \<and> aDisasterType (signal e p) = Some ty
                \<and> aLocation (signal e p) = loc) = qualifies e (typeName ty @ ''-'' @ loc) p"
  proof -
    fix p
    show "(isDisasterRelated (signal e p) \<and> aDisasterType (signal e p) = Some ty
                \<and> aLocation (signal e p) = loc) = qualifies e (typeName ty @ ''-'' @ loc) p"
    proof (cases "isDisasterRelated (signal e p)")
      case False
      then show ?thesis by (simp add: qualifies_def)
    next
      case True
      then obtain ty' where ty': "aDisasterType (signal e p) = Some ty'"
        using related_has_type by blast
      have "alertKey (signal e p) = typeName ty' @ ''-'' @ aLocation (signal e p)"
        unfolding alertKey_def ty' by simp
      then show ?thesis using True ty' by (auto simp: qualifies_def typeName_key_inj2)
    qed
  qed
  then show ?thesis unfolding reportsFor_def reports_def by simp
qed

lemma reportCount_per_key:
  "map reportCount (filter (\<lambda>a. disasterType a = ty \<and> location a = loc)
       (mapValues (fst (aggregate e c posts)))) =
     (if reportsFor e ty loc posts = [] then [] else [length (reportsFor e ty loc posts)])"
proof -
  let ?m = "fst (aggregate e c posts)"
  let ?k = "typeName ty @ ''-'' @ loc"
  have f: "filter (\<lambda>a. disasterType a = ty \<and> location a = loc) (mapValues ?m) =
     (case mapGet ?m ?k of None \<Rightarrow> [] | Some a \<Rightarrow> [a])"
    using aggregate_distinct aggregate_keys by (rule values_for_key)
  show ?thesis
  proof (cases "mapGet ?m ?k")
    case None
    then show ?thesis using f aggregate_None [of e c posts ?k] by (simp add: reportsFor_reports)
  next
    case (Some a)
    then have "reports e ?k posts \<noteq> []" using aggregate_None [of e c posts ?k] by auto
    then show ?thesis using f Some aggregate_Some [OF Some] by (simp add: reportsFor_reports)
  qed
qed

lemma two_posts_one_alert:
  assumes r1: "isDisasterRelated (signal e p1)" and r2: "isDisasterRelated (signal e p2)"
    and ty: "aDisasterType (signal e p1) = aDisasterType (signal e p2)"
    and loc: "aLocation (signal e p1) = aLocation (signal e p2)"
  shows "map reportCount (mapValues (fst (aggregate e c [p1, p2]))) = [2]"
proof -
  let ?k = "alertKey (signal e p1)"
  have k2: "alertKey (signal e p2) = ?k" unfolding alertKey_def using ty loc by simp
  obtain t where t: "aDisasterType (signal e p1) = Some t" using related_has_type [OF r1] by blast
  obtain m1 c1 where s1: "processPost e ([], c) p1 = (m1, c1)" by (cases "processPost e ([], c) p1")
  have "mapGet [] ?k = None" by simp
  from processPost_create [OF r1 this t, of c]
  obtain a1 where m1: "m1 = [(?k, a1)]" and a1: "reportCount a1 = 1"
    using s1 by (simp add: createAlert_fields)
  have g: "mapGet m1 (alertKey (signal e p2)) = Some a1" unfolding m1 k2 by simp
  have "fst (processPost e (m1, c1) p2) =
      [(?k, mergeReport a1 (fst (analyzePost e c1 p2)) p2)]"
    using processPost_merge [OF r2 g, of c1] unfolding m1 k2 by simp
  moreover have "aggregate e c [p1, p2] = processPost e (m1, c1) p2"
    unfolding aggregate_def using s1 by simp
  ultimately show ?thesis using a1 by (simp add: mapValues_def mergeReport_fields)
qed

lemma first_signal_urgency:
  assumes "(k, b) \<in> set (fst (aggregate e c posts))"
  shows "reports e k posts \<noteq> [] \<and> urgencyLevel b = aUrgencyLevel (signal e (hd (reports e k posts)))"
proof -
  have g: "mapGet (fst (aggregate e c posts)) k = Some b"
    using aggregate_distinct assms by (rule mapGet_distinct_mem)
  then have "reports e k posts \<noteq> []" using aggregate_None [of e c posts k] by auto
  then show ?thesis using aggregate_Some [OF g] by simp
qed

section \<open>The sort of the published alerts\<close>

lemma mset_insertBy: "mset (insertBy cmp x xs) = add_mset x (mset xs)"
  by (induction xs) auto

lemma mset_sortBy: "mset (sortBy cmp xs) = mset xs"
  unfolding sortBy_def by (induction xs) (auto simp: mset_insertBy)

lemma set_insertBy: "set (insertBy cmp x xs) = insert x (set xs)"
  by (induction xs) auto

lemma sorted_insertBy:
  "sorted_wrt (\<lambda>a b. f b \<le> f a) xs \<Longrightarrow>
   sorted_wrt (\<lambda>a b. f b \<le> f a) (insertBy (\<lambda>a b. f b - f a) x xs)"
  by (induction xs) (auto simp: set_insertBy)

lemma sorted_sortBy: "sorted_wrt (\<lambda>a b. f b \<le> f a) (sortBy (\<lambda>a b. f b - f a) xs)"
  unfolding sortBy_def by (induction xs) (auto simp: sorted_insertBy)

lemma filter_insertBy:
  "filter (\<lambda>a. f a = v) (insertBy (\<lambda>a b. f b - f a) x xs) =
     (if f x = v then x # filter (\<lambda>a. f a = v) xs else filter (\<lambda>a. f a = v) xs)"
  by (induction xs) auto

lemma filter_sortBy:
  "filter (\<lambda>a. f a = v) (sortBy (\<lambda>a b. f b - f a) xs) = filter (\<lambda>a. f a = v) xs"
  unfolding sortBy_def by (induction xs) (auto simp: filter_insertBy)

lemma analyzePosts_fst:
  "fst (analyzePosts e c posts) =
     sortBy (\<lambda>a b. confidence b - confidence a)
       (filter published (mapValues (fst (aggregate e c posts))))"
  unfolding analyzePosts_def by (simp split: prod.splits)

lemma published_in_map:
  assumes "a \<in> set (fst (analyzePosts e c posts))"
  shows "\<exists>k. (k, a) \<in> set (fst (aggregate e c posts))"
proof -
  have "mset (fst (analyzePosts e c posts)) =
      mset (filter published (mapValues (fst (aggregate e c posts))))"
    by (simp only: analyzePosts_fst mset_sortBy)
  then have "set (fst (analyzePosts e c posts)) =
      set (filter published (mapValues (fst (aggregate e c posts))))"
    by (rule mset_eq_setD)
  then have "a \<in> snd ` set (fst (aggregate e c posts))"
    using assms by (simp add: mapValues_def)
  then show ?thesis by auto
qed

section \<open>Severity of an image and coordinates of a location\<close>

lemma clip_1_5: "min 5 (max 1 (of_int n :: real)) \<in> {1, 2, 3, 4, 5}"
proof -
  have "min 5 (max 1 (of_int n)) = (of_int (min 5 (max 1 n)) :: real)"
    by (simp add: min_def max_def)
  moreover have "min 5 (max 1 n) = 1 \<or> min 5 (max 1 n) = 2 \<or> min 5 (max 1 n) = 3
      \<or> min 5 (max 1 n) = 4 \<or> min 5 (max 1 n) = 5"
    by arith
  ultimately show ?thesis by auto
qed

lemma sat_severity_range:
  assumes "ty \<noteq> SatNone"
  shows "sat_calculateSeverity conf an ty \<in> {1, 2, 3, 4, 5}"
  unfolding sat_calculateSeverity_def Let_def
  by (simp only: assms if_False) (rule clip_1_5)

lemma sat_severity_none: "sat_calculateSeverity conf an SatNone = 0"
  unfolding sat_calculateSeverity_def by simp

lemma getCoordinates_hit:
  "map_of indianCities (toLowerCase loc) = Some (lat, lng) \<Longrightarrow>
     getCoordinates e c loc = (LatLng lat lng, c)"
  unfolding getCoordinates_def Let_def by simp

lemma getCoordinates_fallback:
  "map_of indianCities (toLowerCase loc) = None \<Longrightarrow> toLowerCase loc \<notin> set inheritedMembers \<Longrightarrow>
     getCoordinates e c loc =
       (LatLng (20.5937 + (mathRandom e (randomCalls c) - 0.5) * 15)
               (78.9629 + (mathRandom e (Suc (randomCalls c)) - 0.5) * 15),
        c\<lparr>randomCalls := Suc (Suc (randomCalls c))\<rparr>)"
  unfolding getCoordinates_def Let_def nextRandom_def by simp

section \<open>The claims about the aggregator\<close>

text \<open>
  Claim C1. During one call of \<^verbatim>\<open>analyzePosts\<close> the keys of the map are distinct, and
  for every type and location name the map holds no alert of that type and location
  when no post of the batch reports them, and exactly one otherwise, whose
  \<^verbatim>\<open>reportCount\<close> is the number of these posts. In particular two disaster-related
  posts whose signals have the same type and the same location name give one alert
  with \<^verbatim>\<open>reportCount\<close> 2, not two alerts. The location name is the one
  \<^verbatim>\<open>extractLocation\<close> returns.
\<close>

theorem one_alert_per_key:
  "distinct (map fst (fst (aggregate e c posts)))
   \<and> map reportCount (filter (\<lambda>a. disasterType a = ty \<and> location a = loc)
         (mapValues (fst (aggregate e c posts)))) =
       (if reportsFor e ty loc posts = [] then [] else [length (reportsFor e ty loc posts)])
   \<and> (isDisasterRelated (signal e pa) \<and> isDisasterRelated (signal e pb)
        \<and> aDisasterType (signal e pa) = aDisasterType (signal e pb)
        \<and> aLocation (signal e pa) = aLocation (signal e pb)
      \<longrightarrow> map reportCount (mapValues (fst (aggregate e c [pa, pb]))) = [2])"
  using aggregate_distinct [of e c posts] reportCount_per_key [of ty loc e c posts]
    two_posts_one_alert [of e pa pb c]
  by blast

text \<open>The two flood posts about Mumbai are merged into one alert of two reports.\<close>

theorem one_alert_per_key_witness:
  "isDisasterRelated (signal env0 floodPost1) \<and> isDisasterRelated (signal env0 floodPost2)
   \<and> aDisasterType (signal env0 floodPost1) = aDisasterType (signal env0 floodPost2)
   \<and> aLocation (signal env0 floodPost1) = aLocation (signal env0 floodPost2)
   \<and> map reportCount (mapValues (fst (aggregate env0 c0 [floodPost1, floodPost2]))) = [2]"
proof -
  have h: "isDisasterRelated (signal env0 floodPost1) \<and> isDisasterRelated (signal env0 floodPost2)
   \<and> aDisasterType (signal env0 floodPost1) = aDisasterType (signal env0 floodPost2)
   \<and> aLocation (signal env0 floodPost1) = aLocation (signal env0 floodPost2)"
    by code_simp
  then show ?thesis
    using one_alert_per_key [where e = env0 and c = c0 and pa = floodPost1 and pb = floodPost2]
    by blast
qed

text \<open>
  Claim C2. The list that \<^verbatim>\<open>analyzePosts\<close> returns holds exactly the alerts of the map
  with \<^verbatim>\<open>reportCount >= 2\<close> or urgency level critical, each as often as the map holds
  it (so an alert of one report and urgency medium is left out); it is ordered by
  descending confidence; and the alerts of any one confidence stand in the order in
  which the map holds them, which is the order of their creation.
\<close>

theorem published_sorted_stable:
  "mset (fst (analyzePosts e c posts)) =
     mset (filter (\<lambda>a. reportCount a \<ge> 2 \<or> urgencyLevel a = Critical)
             (mapValues (fst (aggregate e c posts))))
   \<and> (a \<in> set (fst (analyzePosts e c posts)) \<longleftrightarrow>
        a \<in> set (mapValues (fst (aggregate e c posts)))
        \<and> (reportCount a \<ge> 2 \<or> urgencyLevel a = Critical))
   \<and> sorted_wrt (\<lambda>a b. confidence a \<ge> confidence b) (fst (analyzePosts e c posts))
   \<and> filter (\<lambda>a. confidence a = x) (fst (analyzePosts e c posts)) =
       filter (\<lambda>a. confidence a = x)
         (filter (\<lambda>a. reportCount a \<ge> 2 \<or> urgencyLevel a = Critical)
            (mapValues (fst (aggregate e c posts))))"
proof -
  have p: "published = (\<lambda>a. reportCount a \<ge> 2 \<or> urgencyLevel a = Critical)"
    by (rule ext) (simp add: published_def)
  have 1: "mset (fst (analyzePosts e c posts)) =
     mset (filter (\<lambda>a. reportCount a \<ge> 2 \<or> urgencyLevel a = Critical)
             (mapValues (fst (aggregate e c posts))))"
    by (simp only: analyzePosts_fst mset_sortBy p)
  have "set (fst (analyzePosts e c posts)) =
     set (filter (\<lambda>a. reportCount a \<ge> 2 \<or> urgencyLevel a = Critical)
             (mapValues (fst (aggregate e c posts))))"
    using 1 by (rule mset_eq_setD)
  then have 2: "a \<in> set (fst (analyzePosts e c posts)) \<longleftrightarrow>
        a \<in> set (mapValues (fst (aggregate e c posts)))
        \<and> (reportCount a \<ge> 2 \<or> urgencyLevel a = Critical)"
    by simp
  have 3: "sorted_wrt (\<lambda>a b. confidence a \<ge> confidence b) (fst (analyzePosts e c posts))"
    by (simp only: analyzePosts_fst sorted_sortBy)
  have 4: "filter (\<lambda>a. confidence a = x) (fst (analyzePosts e c posts)) =
       filter (\<lambda>a. confidence a = x)
         (filter (\<lambda>a. reportCount a \<ge> 2 \<or> urgencyLevel a = Critical)
            (mapValues (fst (aggregate e c posts))))"
    by (simp only: analyzePosts_fst filter_sortBy p)
  from 1 2 3 4 show ?thesis by blast
qed

text \<open>One flood post of medium urgency alone is not published; with a second post for
  the same key its alert is. Of two alerts of the same confidence 0.15, each of two
  reports, the one created first comes first.\<close>

theorem published_sorted_stable_witness:
  "map urgencyLevel (mapValues (fst (aggregate env0 c0 [floodPost1]))) = [Medium]
   \<and> fst (analyzePosts env0 c0 [floodPost1]) = []
   \<and> map reportCount (fst (analyzePosts env0 c0 [floodPost1, floodPost2])) = [2]
   \<and> map location (filter (\<lambda>a. confidence a = 0.15)
         (fst (analyzePosts env0 c0 [shortPost, firePost, firePost, shortPost])))
       = [''Pune'', ''Delhi'']"
proof -
  have h1: "map urgencyLevel (mapValues (fst (aggregate env0 c0 [floodPost1]))) = [Medium]"
    by code_simp
  have h2: "filter (\<lambda>a. reportCount a \<ge> 2 \<or> urgencyLevel a = Critical)
      (mapValues (fst (aggregate env0 c0 [floodPost1]))) = []"
    by code_simp
  have h3: "map reportCount (fst (analyzePosts env0 c0 [floodPost1, floodPost2])) = [2]"
    by code_simp
  have h4: "map location (filter (\<lambda>a. confidence a = 0.15)
      (filter (\<lambda>a. reportCount a \<ge> 2 \<or> urgencyLevel a = Critical)
         (mapValues (fst (aggregate env0 c0 [shortPost, firePost, firePost, shortPost])))))
       = [''Pune'', ''Delhi'']"
    by code_simp
  have "fst (analyzePosts env0 c0 [floodPost1]) = []"
    using h2 published_sorted_stable [where e = env0 and c = c0 and posts = "[floodPost1]"]
    by simp
  moreover have "map location (filter (\<lambda>a. confidence a = 0.15)
         (fst (analyzePosts env0 c0 [shortPost, firePost, firePost, shortPost])))
       = [''Pune'', ''Delhi'']"
    using h4 published_sorted_stable [where e = env0 and c = c0 and x = "0.15"
        and posts = "[shortPost, firePost, firePost, shortPost]"]
    by simp
  ultimately show ?thesis using h1 h3 by blast
qed

text \<open>
  Claim C3. An alert created by the analyser (one report, with the severity that
  \<^verbatim>\<open>calculateInitialSeverity\<close> gives for any urgency level, sentiment and match count)
  that takes nine merges, with any analyses, and whose running sentiment score is
  below \<open>- 10\<close> after the ninth, has ten reports and the severity 5 exactly. So every
  alert in the map of \<^verbatim>\<open>analyzePosts\<close> that has ten reports and a sentiment score
  below \<open>- 10\<close> has the severity 5.
\<close>

theorem tenth_report_severity:
  "(reportCount a0 = 1 \<and> severity a0 = calculateInitialSeverity lvl s k
      \<and> length rs = 9 \<and> sentimentScore (mergeAll a0 rs) < - 10
     \<longrightarrow> reportCount (mergeAll a0 rs) = 10 \<and> severity (mergeAll a0 rs) = 5)
   \<and> ((key, b) \<in> set (fst (aggregate e c posts)) \<and> reportCount b = 10
      \<and> sentimentScore b < - 10
     \<longrightarrow> severity b = 5)"
proof -
  have 1: "reportCount a0 = 1 \<and> severity a0 = calculateInitialSeverity lvl s k
      \<and> length rs = 9 \<and> sentimentScore (mergeAll a0 rs) < - 10
     \<longrightarrow> reportCount (mergeAll a0 rs) = 10 \<and> severity (mergeAll a0 rs) = 5"
    using mergeAll_tenth_report by blast
  have "severityFloor 10 = 5" unfolding severityFloor_def by simp
  then have 2: "(key, b) \<in> set (fst (aggregate e c posts)) \<and> reportCount b = 10
      \<and> sentimentScore b < - 10 \<longrightarrow> severity b = 5"
    using aggregate_severity_floor [of key b e c posts] by auto
  from 1 2 show ?thesis by blast
qed

text \<open>An alert of low urgency and sentiment \<open>- 30\<close> after nine merges of sentiment \<open>- 30\<close>,
  and the alert of a batch of ten short flood posts of sentiment \<open>- 30\<close>.\<close>

theorem tenth_report_severity_witness:
  "reportCount alertA = 1 \<and> severity alertA = calculateInitialSeverity Low (- 30) 1
   \<and> length (replicate 9 (signalA, floodPost1)) = 9
   \<and> sentimentScore (mergeAll alertA (replicate 9 (signalA, floodPost1))) < - 10
   \<and> reportCount (mergeAll alertA (replicate 9 (signalA, floodPost1))) = 10
   \<and> severity (mergeAll alertA (replicate 9 (signalA, floodPost1))) = 5
   \<and> (''flood-Pune'', snd (hd (fst (aggregate env1 c0 (replicate 10 shortPost)))))
        \<in> set (fst (aggregate env1 c0 (replicate 10 shortPost)))
   \<and> reportCount (snd (hd (fst (aggregate env1 c0 (replicate 10 shortPost))))) = 10
   \<and> sentimentScore (snd (hd (fst (aggregate env1 c0 (replicate 10 shortPost))))) < - 10
   \<and> severity (snd (hd (fst (aggregate env1 c0 (replicate 10 shortPost))))) = 5"
proof -
  have h1: "reportCount alertA = 1" by (simp add: alertA_def)
  have h2: "severity alertA = calculateInitialSeverity Low (- 30) 1" by (simp add: alertA_def)
  have h3: "length (replicate 9 (signalA, floodPost1)) = 9" by simp
  have h4: "sentimentScore (mergeAll alertA (replicate 9 (signalA, floodPost1))) < - 10"
    by code_simp
  have h5: "(''flood-Pune'', snd (hd (fst (aggregate env1 c0 (replicate 10 shortPost)))))
        \<in> set (fst (aggregate env1 c0 (replicate 10 shortPost)))
   \<and> reportCount (snd (hd (fst (aggregate env1 c0 (replicate 10 shortPost))))) = 10
   \<and> sentimentScore (snd (hd (fst (aggregate env1 c0 (replicate 10 shortPost))))) < - 10"
    by code_simp
  show ?thesis
    using h1 h2 h3 h4 h5
      tenth_report_severity [where ?a0.0 = alertA and lvl = Low and s = "- 30" and k = 1
        and rs = "replicate 9 (signalA, floodPost1)" and key = "''flood-Pune''"
        and b = "snd (hd (fst (aggregate env1 c0 (replicate 10 shortPost))))"
        and e = env1 and c = c0 and posts = "replicate 10 shortPost"]
    by blast
qed

text \<open>
  Claim C4. A merge sets the confidence of the alert to \<open>min 1 (confidence + 0.05)\<close>. For an
  alert whose confidence is at most 1 a merge does not lower it, and after any run of
  merges it is \<open>min 1 (confidence + 0.05 * n)\<close> for the number \<open>n\<close> of merges: 0.05 more
  with each merge until the cap 1, and 1 from then on. Every alert of the map of
  \<^verbatim>\<open>analyzePosts\<close> has a confidence between 0 and 1, namely the confidence of the first
  report of its key and 0.05 for each further report, capped at 1.
\<close>

theorem confidence_grows_by_step:
  "confidence (mergeReport a A p) = min 1 (confidence a + 0.05)
   \<and> (confidence a \<le> 1 \<longrightarrow>
        confidence a \<le> confidence (mergeReport a A p)
        \<and> confidence (mergeAll a rs) = min 1 (confidence a + 0.05 * real (length rs)))
   \<and> ((k, b) \<in> set (fst (aggregate e c posts)) \<longrightarrow>
        0 \<le> confidence b \<and> confidence b \<le> 1
        \<and> confidence b = min 1 (aConfidence (signal e (hd (reports e k posts)))
                                 + 0.05 * real (length (reports e k posts) - 1)))"
proof -
  have 1: "confidence (mergeReport a A p) = min 1 (confidence a + 0.05)"
    by (rule mergeReport_fields)
  have 2: "confidence a \<le> 1 \<longrightarrow> confidence a \<le> confidence (mergeReport a A p)"
    unfolding 1 by simp
  have 3: "confidence a \<le> 1 \<longrightarrow>
      confidence (mergeAll a rs) = min 1 (confidence a + 0.05 * real (length rs))"
    using mergeAll_confidence by blast
  have 4: "(k, b) \<in> set (fst (aggregate e c posts)) \<longrightarrow> 0 \<le> confidence b \<and> confidence b \<le> 1"
    using aggregate_confidence by blast
  have 5: "(k, b) \<in> set (fst (aggregate e c posts)) \<longrightarrow>
        confidence b = min 1 (aConfidence (signal e (hd (reports e k posts)))
                                 + 0.05 * real (length (reports e k posts) - 1))"
    using aggregate_confidence_closed mapGet_distinct_mem [OF aggregate_distinct] by blast
  from 1 2 3 4 5 show ?thesis by blast
qed

text \<open>An alert of confidence 0.5 has 0.55 after one merge and 1 after twelve; the alert
  of the two flood posts has the confidence of the first and 0.05.\<close>

theorem confidence_grows_by_step_witness:
  "confidence alertA \<le> 1
   \<and> confidence (mergeReport alertA signalA floodPost1) = 0.55
   \<and> confidence (mergeAll alertA (replicate 12 (signalA, floodPost1))) = 1
   \<and> (''flood-Mumbai'', snd (hd (fst (aggregate env0 c0 [floodPost1, floodPost2]))))
        \<in> set (fst (aggregate env0 c0 [floodPost1, floodPost2]))
   \<and> hd (reports env0 ''flood-Mumbai'' [floodPost1, floodPost2]) = floodPost1
   \<and> length (reports env0 ''flood-Mumbai'' [floodPost1, floodPost2]) = 2
   \<and> aConfidence (signal env0 floodPost1) \<le> 0.95
   \<and> confidence (snd (hd (fst (aggregate env0 c0 [floodPost1, floodPost2]))))
       = aConfidence (signal env0 floodPost1) + 0.05"
proof -
  have h1: "confidence alertA \<le> 1" by (simp add: alertA_def)
  have h2: "(''flood-Mumbai'', snd (hd (fst (aggregate env0 c0 [floodPost1, floodPost2]))))
        \<in> set (fst (aggregate env0 c0 [floodPost1, floodPost2]))"
    by code_simp
  have h3: "hd (reports env0 ''flood-Mumbai'' [floodPost1, floodPost2]) = floodPost1"
    by code_simp
  have h4: "length (reports env0 ''flood-Mumbai'' [floodPost1, floodPost2]) = 2"
    by code_simp
  have h5: "aConfidence (signal env0 floodPost1) \<le> 0.95" by code_simp
  have c: "confidence alertA = 0.5" by (simp add: alertA_def)
  show ?thesis
    using h1 h2 h3 h4 h5 c
      confidence_grows_by_step [where a = alertA and A = signalA and p = floodPost1
        and rs = "replicate 12 (signalA, floodPost1)"
        and k = "''flood-Mumbai''"
        and b = "snd (hd (fst (aggregate env0 c0 [floodPost1, floodPost2])))"
        and e = env0 and c = c0 and posts = "[floodPost1, floodPost2]"]
    by simp
qed

text \<open>
  Claim C10. A merge changes the report count, the sources, the confidence, the sentiment
  score and the severity of the alert, and nothing else: its identifier, type,
  location, coordinates, urgency level, keywords, affected population and time stamp
  stay. A post leaves the alert of every key it does not qualify for as it is. So the
  urgency level of every alert of the map, which the publication filter reads, is the
  one of the first post of the batch that qualifies for the key of the alert.
\<close>

theorem merge_frame:
  "mergeReport a A p =
     a\<lparr>reportCount := reportCount a + 1, sources := sources a @ [p],
       confidence := min 1 (confidence a + 0.05),
       sentimentScore := (sentimentScore a + aSentimentScore A) / 2,
       severity := severity (mergeReport a A p)\<rparr>
   \<and> alert_id (mergeReport a A p) = alert_id a
   \<and> disasterType (mergeReport a A p) = disasterType a
   \<and> location (mergeReport a A p) = location a
   \<and> coordinates (mergeReport a A p) = coordinates a
   \<and> urgencyLevel (mergeReport a A p) = urgencyLevel a
   \<and> alert_keywords (mergeReport a A p) = alert_keywords a
   \<and> affectedPopulation (mergeReport a A p) = affectedPopulation a
   \<and> timestamp (mergeReport a A p) = timestamp a
   \<and> (\<not> qualifies e k post \<longrightarrow> mapGet (fst (processPost e (m, c) post)) k = mapGet m k)
   \<and> ((k', b) \<in> set (fst (aggregate e c posts)) \<longrightarrow>
        reports e k' posts \<noteq> []
        \<and> urgencyLevel b = aUrgencyLevel (signal e (hd (reports e k' posts))))"
proof -
  have 1: "\<not> qualifies e k post \<longrightarrow> mapGet (fst (processPost e (m, c) post)) k = mapGet m k"
    by (simp add: processPost_mapGet)
  have 2: "(k', b) \<in> set (fst (aggregate e c posts)) \<longrightarrow>
        reports e k' posts \<noteq> []
        \<and> urgencyLevel b = aUrgencyLevel (signal e (hd (reports e k' posts)))"
    using first_signal_urgency by blast
  from 1 2 mergeReport_only [of a A p] show ?thesis
    by (simp only: mergeReport_fields simp_thms)
qed

text \<open>The alert of the two flood posts keeps the urgency level of the first, which asks
  for help; the second has no urgency word.\<close>

theorem merge_frame_witness:
  "\<not> qualifies env0 ''fire-Delhi'' floodPost1
   \<and> mapGet (fst (processPost env0 ([], c0) floodPost1)) ''fire-Delhi'' = None
   \<and> (''flood-Mumbai'', snd (hd (fst (aggregate env0 c0 [floodPost1, floodPost2]))))
        \<in> set (fst (aggregate env0 c0 [floodPost1, floodPost2]))
   \<and> hd (reports env0 ''flood-Mumbai'' [floodPost1, floodPost2]) = floodPost1
   \<and> aUrgencyLevel (signal env0 floodPost1) = Medium
   \<and> aUrgencyLevel (signal env0 floodPost2) = Low
   \<and> urgencyLevel (snd (hd (fst (aggregate env0 c0 [floodPost1, floodPost2])))) = Medium"
proof -
  have h1: "\<not> qualifies env0 ''fire-Delhi'' floodPost1" by code_simp
  have h2: "(''flood-Mumbai'', snd (hd (fst (aggregate env0 c0 [floodPost1, floodPost2]))))
        \<in> set (fst (aggregate env0 c0 [floodPost1, floodPost2]))"
    by code_simp
  have h3: "hd (reports env0 ''flood-Mumbai'' [floodPost1, floodPost2]) = floodPost1"
    by code_simp
  have h4: "aUrgencyLevel (signal env0 floodPost1) = Medium" by code_simp
  have h5: "aUrgencyLevel (signal env0 floodPost2) = Low" by code_simp
  show ?thesis
    using h1 h2 h3 h4 h5
      merge_frame [where e = env0 and c = c0 and k = "''fire-Delhi''" and post = floodPost1
        and m = "[]" and k' = "''flood-Mumbai''"
        and b = "snd (hd (fst (aggregate env0 c0 [floodPost1, floodPost2])))"
        and posts = "[floodPost1, floodPost2]"]
    by simp
qed

section \<open>The claims about the classifiers\<close>

text \<open>
  Claim C6. The categories are checked in the order flood, fire, earthquake, hurricane,
  landslide, cyclone, tsunami. For every text the type that the loop of
  \<^verbatim>\<open>analyzePost\<close> selects is the first category of this order whose number of keywords
  occurring in the lower-cased text is the greatest of all categories, and no type when
  this greatest number is 0; the analysis of a post is disaster-related exactly when the
  greatest number is positive. A post for which every category counts 0 is not
  disaster-related and the loop of \<^verbatim>\<open>analyzePosts\<close> leaves the map as it is.
\<close>

theorem category_selection:
  "map fst disasterKeywords = [Flood, Fire, Earthquake, Hurricane, Landslide, Cyclone, Tsunami]
   \<and> fst (detectType txt) = winner (categoryCounts txt)
   \<and> fst (snd (detectType txt)) = greatestCount (categoryCounts txt)
   \<and> aDisasterType (fst (analyzePost e c post)) =
       winner (categoryCounts (toLowerCase (post_text post)))
   \<and> isDisasterRelated (fst (analyzePost e c post)) =
       (0 < greatestCount (categoryCounts (toLowerCase (post_text post))))
   \<and> (list_all (\<lambda>entry. snd entry = 0) (categoryCounts (toLowerCase (post_text post)))
      \<longrightarrow> \<not> isDisasterRelated (fst (analyzePost e c post))
          \<and> fst (processPost e (m, c) post) = m)"
proof -
  have "list_all (\<lambda>entry. snd entry = 0) (categoryCounts (toLowerCase (post_text post)))
      \<longrightarrow> \<not> isDisasterRelated (signal e post)"
    using signal_type(2) [of e post] greatestCount_zero by simp
  then show ?thesis
    using table_order detectType_winner [of "txt"] signal_type [of e post]
      processPost_unrelated [of e post m c]
    by (simp add: analyzePost_fields)
qed

text \<open>The post \<open>hello world\<close> matches no keyword of any category and creates no alert.\<close>

theorem category_selection_witness:
  "list_all (\<lambda>entry. snd entry = 0) (categoryCounts (toLowerCase (post_text quietPost)))
   \<and> \<not> isDisasterRelated (fst (analyzePost env0 c0 quietPost))
   \<and> fst (processPost env0 ([], c0) quietPost) = []"
proof -
  have h: "list_all (\<lambda>entry. snd entry = 0) (categoryCounts (toLowerCase (post_text quietPost)))"
    by code_simp
  then show ?thesis
    using category_selection [where e = env0 and c = c0 and post = quietPost and m = "[]"]
    by blast
qed

text \<open>
  Claim C7, as stated, says that a signal without a type has the severity 0. The text
  classifier computes the severity of every post from its urgency level: the post
  \<open>hello world\<close> has no type, is not disaster-related, and has the severity 2.
\<close>

theorem unclassified_text_severity_counterexample:
  "aDisasterType (fst (analyzePost env0 c0 quietPost)) = None
   \<and> \<not> isDisasterRelated (fst (analyzePost env0 c0 quietPost))
   \<and> aSeverity (fst (analyzePost env0 c0 quietPost)) = 2
   \<and> aSeverity (fst (analyzePost env0 c0 quietPost)) \<noteq> 0"
  by code_simp

text \<open>
  Claim C7, amended. An image signal of a type other than none has a severity among 1 to
  5, and an image signal of the type none has the severity 0. Every text signal, with a
  type or without, has a severity among 2 to 5; a text signal that is not
  disaster-related changes no alert. Every alert that \<^verbatim>\<open>analyzePosts\<close> returns has a
  severity among 2 to 5 (and, by its type, one of the seven disaster types).
\<close>

theorem severity_ranges:
  "(ty \<noteq> SatNone \<longrightarrow> sat_calculateSeverity conf an ty \<in> {1, 2, 3, 4, 5})
   \<and> sat_calculateSeverity conf an SatNone = 0
   \<and> aSeverity (fst (analyzePost e c post)) \<in> {2, 3, 4, 5}
   \<and> (\<not> isDisasterRelated (fst (analyzePost e c post)) \<longrightarrow> fst (processPost e (m, c) post) = m)
   \<and> (a \<in> set (fst (analyzePosts e c posts)) \<longrightarrow> severity a \<in> {2, 3, 4, 5})"
proof -
  have 1: "ty \<noteq> SatNone \<longrightarrow> sat_calculateSeverity conf an ty \<in> {1, 2, 3, 4, 5}"
    using sat_severity_range by blast
  have 2: "aSeverity (fst (analyzePost e c post)) \<in> {2, 3, 4, 5}"
    by (simp only: analyzePost_fields signal_severity)
  have 3: "\<not> isDisasterRelated (fst (analyzePost e c post)) \<longrightarrow> fst (processPost e (m, c) post) = m"
    by (simp add: analyzePost_fields processPost_unrelated)
  have 4: "a \<in> set (fst (analyzePosts e c posts)) \<longrightarrow> severity a \<in> {2, 3, 4, 5}"
    using published_in_map aggregate_severity by blast
  from 1 2 3 4 sat_severity_none show ?thesis by blast
qed

theorem severity_ranges_witness:
  "SatFlood \<noteq> SatNone
   \<and> sat_calculateSeverity 0.95 (colorMetrics 0.2 0.2 0.6) SatFlood \<in> {1, 2, 3, 4, 5}
   \<and> \<not> isDisasterRelated (fst (analyzePost env0 c0 quietPost))
   \<and> fst (processPost env0 ([], c0) quietPost) = []
   \<and> hd (fst (analyzePosts env0 c0 [floodPost1, floodPost2]))
        \<in> set (fst (analyzePosts env0 c0 [floodPost1, floodPost2]))
   \<and> severity (hd (fst (analyzePosts env0 c0 [floodPost1, floodPost2]))) \<in> {2, 3, 4, 5}"
proof -
  have h1: "SatFlood \<noteq> SatNone" by simp
  have h2: "\<not> isDisasterRelated (fst (analyzePost env0 c0 quietPost))" by code_simp
  have h3: "hd (fst (analyzePosts env0 c0 [floodPost1, floodPost2]))
        \<in> set (fst (analyzePosts env0 c0 [floodPost1, floodPost2]))"
    by code_simp
  show ?thesis
    using h1 h2 h3
      severity_ranges [where ty = SatFlood and conf = "0.95" and an = "colorMetrics 0.2 0.2 0.6"
        and e = env0 and c = c0 and post = quietPost and m = "[]"
        and a = "hd (fst (analyzePosts env0 c0 [floodPost1, floodPost2]))"
        and posts = "[floodPost1, floodPost2]"]
    by blast
qed

text \<open>
  Claim C9, as stated, says that two runs on the same location return the same
  coordinates. For a location outside the gazetteer the coordinates are computed from
  the next two results of \<^verbatim>\<open>Math.random()\<close>, and no seed is passed in: two calls on
  \<open>Atlantis\<close>, one after the other in the same surroundings, return different
  coordinates.
\<close>

theorem fallback_coordinates_counterexample:
  "fst (getCoordinates env0 c0 ''Atlantis'')
     \<noteq> fst (getCoordinates env0 (snd (getCoordinates env0 c0 ''Atlantis'')) ''Atlantis'')"
  by code_simp

text \<open>
  Claim C9, amended. For a location whose lower-cased name is a key of the gazetteer,
  \<^verbatim>\<open>getCoordinates\<close> returns the fixed coordinate of that entry, in all surroundings and
  without a call of \<^verbatim>\<open>Math.random()\<close>. For a location that is neither such a key nor a
  name inherited from \<^verbatim>\<open>Object.prototype\<close>, it returns
  \<open>20.5937 + (u1 - 0.5) * 15\<close> and \<open>78.9629 + (u2 - 0.5) * 15\<close> for the next two results
  \<open>u1\<close>, \<open>u2\<close> of \<^verbatim>\<open>Math.random()\<close>; for results from 0 up to 1 these lie from 13.0937 up to
  28.0937 and from 71.4629 up to 86.4629.
\<close>

theorem getCoordinates_cases:
  "(map_of indianCities (toLowerCase city) = Some (lat, lng)
      \<longrightarrow> getCoordinates e c city = (LatLng lat lng, c)
          \<and> getCoordinates e' c' city = (LatLng lat lng, c'))
   \<and> (map_of indianCities (toLowerCase place) = None
        \<and> toLowerCase place \<notin> set inheritedMembers
        \<and> 0 \<le> mathRandom e (randomCalls c) \<and> mathRandom e (randomCalls c) < 1
        \<and> 0 \<le> mathRandom e (Suc (randomCalls c)) \<and> mathRandom e (Suc (randomCalls c)) < 1
      \<longrightarrow> getCoordinates e c place =
           (LatLng (20.5937 + (mathRandom e (randomCalls c) - 0.5) * 15)
                   (78.9629 + (mathRandom e (Suc (randomCalls c)) - 0.5) * 15),
            c\<lparr>randomCalls := Suc (Suc (randomCalls c))\<rparr>)
          \<and> 13.0937 \<le> 20.5937 + (mathRandom e (randomCalls c) - 0.5) * 15
          \<and> 20.5937 + (mathRandom e (randomCalls c) - 0.5) * 15 < 28.0937
          \<and> 71.4629 \<le> 78.9629 + (mathRandom e (Suc (randomCalls c)) - 0.5) * 15
          \<and> 78.9629 + (mathRandom e (Suc (randomCalls c)) - 0.5) * 15 < 86.4629)"
  using getCoordinates_hit [of city lat lng e c] getCoordinates_hit [of city lat lng e' c']
    getCoordinates_fallback [of place e c]
  by simp

text \<open>Mumbai is in the gazetteer; Atlantis is not, and with the random numbers \<open>1 / 2\<close> and
  \<open>1 / 3\<close> it is placed at the latitude 20.5937 and the longitude 76.4629.\<close>

theorem getCoordinates_cases_witness:
  "map_of indianCities (toLowerCase ''Mumbai'') = Some (19.0760, 72.8777)
   \<and> getCoordinates env0 c0 ''Mumbai'' = (LatLng 19.0760 72.8777, c0)
   \<and> map_of indianCities (toLowerCase ''Atlantis'') = None
   \<and> toLowerCase ''Atlantis'' \<notin> set inheritedMembers
   \<and> mathRandom env0 (randomCalls c0) = 1 / 2
   \<and> mathRandom env0 (Suc (randomCalls c0)) = 1 / 3
   \<and> fst (getCoordinates env0 c0 ''Atlantis'') = LatLng 20.5937 76.4629"
proof -
  have h1: "map_of indianCities (toLowerCase ''Mumbai'') = Some (19.0760, 72.8777)"
    by code_simp
  have h2: "map_of indianCities (toLowerCase ''Atlantis'') = None" by code_simp
  have h3: "toLowerCase ''Atlantis'' \<notin> set inheritedMembers" by code_simp
  have h4: "mathRandom env0 (randomCalls c0) = 1 / 2"
    "mathRandom env0 (Suc (randomCalls c0)) = 1 / 3"
    by (simp_all add: env0_def c0_def)
  show ?thesis
    using h1 h2 h3 h4
      getCoordinates_cases [where city = "''Mumbai''" and lat = "19.0760" and lng = "72.8777"
        and place = "''Atlantis''" and e = env0 and c = c0 and e' = env0 and c' = c0]
    by simp
qed

end
